theory Spec2Isabelle
  imports Complex_Main "HOL-Library.Code_Target_Nat"
begin

section \<open>Decimal arithmetic\<close>

text \<open>
  The program computes with Python \<open>Decimal\<close> values under the default context: 28
  significant digits, rounding half to even. A \<open>Decimal\<close> is modelled by its value, a
  rational number; every arithmetic operation is the exact operation followed by the
  context's rounding to 28 significant digits (\<open>dec_fix\<close>).

  A \<open>DecimalField(max_digits=12, decimal_places=2)\<close> column holds its value with two
  decimal places: writing a \<open>Decimal\<close> to the column quantizes it to two places, rounding
  half to even. A stored amount is modelled as an integer number of hundredths
  (\<open>money\<close>); on such values \<open>Decimal\<close> addition, subtraction and comparison are exact.
  The field's range (at most twelve digits) is modelled where a caller supplies the
  amount, in the payments on a debt.
\<close>

type_synonym decimal = rat

type_synonym money = int

definition round_half_even :: "rat \<Rightarrow> int" where
  "round_half_even x =
     (let f = \<lfloor>x\<rfloor>; d = x - of_int f
      in if d < 1 / 2 then f
         else if 1 / 2 < d then f + 1
         else if even f then f else f + 1)"

fun ndigits :: "nat \<Rightarrow> nat" where
  "ndigits n = (if n < 10 then 1 else Suc (ndigits (n div 10)))"

definition pow10 :: "int \<Rightarrow> rat" where
  "pow10 e = (if 0 \<le> e then 10 ^ nat e else 1 / 10 ^ nat (- e))"

text \<open>
  The exponent of the leading digit of a non-zero value:
  \<open>pow10 (adjusted x) \<le> \<bar>x\<bar> < pow10 (adjusted x + 1)\<close>.
\<close>

definition adjusted :: "rat \<Rightarrow> int" where
  "adjusted x =
     (let (p, q) = quotient_of \<bar>x\<bar>;
          s = int (ndigits (nat p)) - int (ndigits (nat q))
      in if pow10 s \<le> \<bar>x\<bar> then s else s - 1)"

definition prec :: nat where
  "prec = 28"

definition dec_fix :: "rat \<Rightarrow> decimal" where
  "dec_fix x =
     (if x = 0 then 0
      else let e = adjusted x - (int prec - 1)
           in of_int (round_half_even (x / pow10 e)) * pow10 e)"

definition dec_add :: "decimal \<Rightarrow> decimal \<Rightarrow> decimal" where
  "dec_add a b = dec_fix (a + b)"

definition dec_mul :: "decimal \<Rightarrow> decimal \<Rightarrow> decimal" where
  "dec_mul a b = dec_fix (a * b)"

definition dec_sub :: "decimal \<Rightarrow> decimal \<Rightarrow> decimal" where
  "dec_sub a b = dec_fix (a - b)"

definition dec_div :: "decimal \<Rightarrow> decimal \<Rightarrow> decimal" where
  "dec_div a b = dec_fix (a / b)"

definition dec_of_money :: "money \<Rightarrow> decimal" where
  "dec_of_money c = of_int c / 100"

text \<open>Writing a \<open>Decimal\<close> to a column with two decimal places.\<close>

definition quantize2 :: "decimal \<Rightarrow> money" where
  "quantize2 x = round_half_even (x * 100)"


section \<open>Data model of the shared expenses\<close>

text \<open>
  Users, and every row, are identified by their primary key. A foreign key that the
  modelled code navigates (\<open>self.expense.amount\<close>, \<open>instance.shared_expense.paid_by\<close>)
  is the related record itself; a foreign key that is only stored or compared is the
  primary key of the related row. \<open>timezone.now()\<close> is a parameter of the operations
  that read the clock. Dates are day numbers.
\<close>

type_synonym user = nat

type_synonym timestamp = nat

datatype error =
    IntegrityError
  | MultipleObjectsReturned
  | FieldError
  | TypeError
  | InvalidOperation
  | ValidationError
  | ConflictError

datatype split_method = EQUAL | EXACT | PERCENTAGE | SHARES

datatype settlement_status = PENDING | PARTIALLY_PAID | SETTLED | CANCELLED

record expense =
  expense_id :: nat
  expense_created_by :: user
  expense_category :: nat
  expense_amount :: money
  expense_description :: string
  expense_transaction_date :: int
  expense_status :: string
  expense_is_deleted :: bool

record expense_group =
  group_id :: nat
  group_name :: string
  group_members :: "user list"
  group_admin :: user
  group_is_deleted :: bool

record shared_expense =
  se_id :: nat
  se_expense :: expense
  se_group :: expense_group
  se_paid_by :: user
  se_split_method :: split_method
  se_notes :: string
  se_is_deleted :: bool

record shared_expense_split =
  split_id :: nat
  split_shared_expense :: shared_expense
  split_user :: user
  split_amount :: money
  split_percentage :: "money option"
  split_is_settled :: bool
  split_settled_at :: "timestamp option"
  split_settlement_notes :: string

record debt =
  debt_id :: nat
  debt_creditor :: user
  debt_debtor :: user
  debt_amount :: money
  debt_description :: string
  debt_group :: "nat option"
  debt_shared_expense_split :: "nat option"
  debt_status :: settlement_status
  debt_due_date :: "int option"
  debt_settled_amount :: money
  debt_settled_at :: "timestamp option"
  debt_created_by :: "user option"
  debt_is_deleted :: bool

record debt_payment =
  payment_debt :: nat
  payment_amount :: money
  payment_method :: string
  payment_reference_number :: string
  payment_notes :: string
  payment_created_by :: "user option"

text \<open>
  The tables written when splits are created, and the supply of fresh primary keys
  (the source draws a random UUID for every new row).
\<close>

record ledger =
  splits :: "shared_expense_split list"
  debts :: "debt list"
  next_pk :: nat


section \<open>Debts derived from splits\<close>

text \<open>\<open>SharedExpense.amount\<close>: the amount of the underlying expense.\<close>

definition se_amount :: "shared_expense \<Rightarrow> money" where
  "se_amount self = expense_amount (se_expense self)"

text \<open>
  \<open>Debt.objects.get_or_create(creditor=.., debtor=.., shared_expense_split=instance,
  defaults=..)\<close>: the lookup is by the three keyword fields; no row gives a new debt
  built from the lookup fields and the defaults, one row is returned as it is, several
  rows raise \<open>MultipleObjectsReturned\<close>. The handler does not use the returned object,
  so the result here is the ledger alone.
\<close>

definition matching_debts ::
  "user \<Rightarrow> user \<Rightarrow> shared_expense_split \<Rightarrow> debt list \<Rightarrow> debt list" where
  "matching_debts creditor debtor instance table =
     filter (\<lambda>d. debt_creditor d = creditor \<and> debt_debtor d = debtor
                  \<and> debt_shared_expense_split d = Some (split_id instance)) table"

definition Debt_get_or_create ::
  "user \<Rightarrow> user \<Rightarrow> shared_expense_split \<Rightarrow> money \<Rightarrow> string \<Rightarrow> nat \<Rightarrow> user
     \<Rightarrow> ledger \<Rightarrow> error + ledger" where
  "Debt_get_or_create creditor debtor instance amount description grp created_by l =
     (case matching_debts creditor debtor instance (debts l) of
        [] \<Rightarrow>
          Inr (l\<lparr>debts := debts l @
                   [\<lparr>debt_id = next_pk l,
                     debt_creditor = creditor,
                     debt_debtor = debtor,
                     debt_amount = amount,
                     debt_description = description,
                     debt_group = Some grp,
                     debt_shared_expense_split = Some (split_id instance),
                     debt_status = PENDING,
                     debt_due_date = None,
                     debt_settled_amount = 0,
                     debt_settled_at = None,
                     debt_created_by = Some created_by,
                     debt_is_deleted = False\<rparr>],
                 next_pk := Suc (next_pk l)\<rparr>)
      | [d] \<Rightarrow> Inr l
      | _ \<Rightarrow> Inl MultipleObjectsReturned)"

text \<open>
  The \<open>post_save\<close> handler of \<open>SharedExpenseSplit\<close>. The debt's amount is the instance's
  amount; the column of the debt quantizes it exactly as the column of the split does,
  so the stored debt amount is the stored split amount.
\<close>

definition create_debt_on_split :: "shared_expense_split \<Rightarrow> bool \<Rightarrow> ledger \<Rightarrow> error + ledger" where
  "create_debt_on_split instance created l =
     (if created \<and> \<not> split_is_settled instance then
        (if split_user instance \<noteq> se_paid_by (split_shared_expense instance) then
           Debt_get_or_create
             (se_paid_by (split_shared_expense instance))
             (split_user instance)
             instance
             (split_amount instance)
             (''Split for: '' @ expense_description (se_expense (split_shared_expense instance)))
             (group_id (se_group (split_shared_expense instance)))
             (se_paid_by (split_shared_expense instance))
             l
         else Inr l)
      else Inr l)"


section \<open>Creating splits\<close>

text \<open>
  \<open>SharedExpenseSplit.objects.create(shared_expense=.., user=.., amount=..)\<close>: the row is
  inserted with the defaults of the other fields, unless a split of the same shared
  expense and user exists (\<open>unique_together\<close>), and the \<open>post_save\<close> handler runs with
  \<open>created=True\<close>.
\<close>

definition SharedExpenseSplit_objects_create ::
  "shared_expense \<Rightarrow> user \<Rightarrow> decimal \<Rightarrow> ledger \<Rightarrow> error + ledger" where
  "SharedExpenseSplit_objects_create se u amount l =
     (if \<exists>s \<in> set (splits l). se_id (split_shared_expense s) = se_id se \<and> split_user s = u
      then Inl IntegrityError
      else
        (let instance =
               \<lparr>split_id = next_pk l,
                split_shared_expense = se,
                split_user = u,
                split_amount = quantize2 amount,
                split_percentage = None,
                split_is_settled = False,
                split_settled_at = None,
                split_settlement_notes = ''''\<rparr>
         in create_debt_on_split instance True
              (l\<lparr>splits := splits l @ [instance], next_pk := Suc (next_pk l)\<rparr>)))"

fun create_splits_loop ::
  "shared_expense \<Rightarrow> decimal \<Rightarrow> user list \<Rightarrow> ledger \<Rightarrow> error + ledger" where
  "create_splits_loop self amount_per_person [] l = Inr l"
| "create_splits_loop self amount_per_person (member # members) l =
     (case SharedExpenseSplit_objects_create self member amount_per_person l of
        Inl e \<Rightarrow> Inl e
      | Inr l' \<Rightarrow> create_splits_loop self amount_per_person members l')"

definition create_equal_splits ::
  "shared_expense \<Rightarrow> user list option \<Rightarrow> ledger \<Rightarrow> error + ledger" where
  "create_equal_splits self members_arg l =
     (let members = (case members_arg of
                       None \<Rightarrow> group_members (se_group self)
                     | Some ms \<Rightarrow> ms)
      in if members = [] then Inr l
         else
           (let amount_per_person =
                  dec_div (dec_of_money (expense_amount (se_expense self)))
                          (of_nat (length members))
            in create_splits_loop self amount_per_person members l))"


text \<open>
  Primary keys are drawn fresh, so in every ledger the program reaches no debt refers to
  a split whose key has not been drawn yet.
\<close>

definition keys_fresh :: "ledger \<Rightarrow> bool" where
  "keys_fresh l =
     list_all (\<lambda>d. case debt_shared_expense_split d of
                       None \<Rightarrow> True
                     | Some k \<Rightarrow> k < next_pk l) (debts l)"


section \<open>Settling a split\<close>

definition settle :: "timestamp \<Rightarrow> string \<Rightarrow> shared_expense_split \<Rightarrow> shared_expense_split" where
  "settle now notes self =
     (let s = self\<lparr>split_is_settled := True, split_settled_at := Some now\<rparr>
      in if notes \<noteq> [] then s\<lparr>split_settlement_notes := notes\<rparr> else s)"

definition unsettle :: "shared_expense_split \<Rightarrow> shared_expense_split" where
  "unsettle self = self\<lparr>split_is_settled := False, split_settled_at := None\<rparr>"


section \<open>Payments on a debt\<close>

text \<open>
  The amount reaches \<open>add_payment\<close> as a Python value. \<open>settle_full\<close> passes a
  \<open>Decimal\<close>; the view passes the value of the request body as it is: an int, a float,
  a string, or a list or an object. \<open>Decimal\<close> arithmetic converts an int exactly and
  refuses every other value with \<open>TypeError\<close>, whatever it is, so a float carries no
  value here. A \<open>Decimal\<close> is a finite one: no caller in the program passes a NaN or
  an infinity.
\<close>

datatype py_value = PyDecimal decimal | PyInt int | PyFloat | PyStr string | PyOther

definition py_decimal :: "py_value \<Rightarrow> decimal option" where
  "py_decimal v =
     (case v of
        PyDecimal x \<Rightarrow> Some x
      | PyInt n \<Rightarrow> Some (of_int n)
      | PyFloat \<Rightarrow> None
      | PyStr s \<Rightarrow> None
      | PyOther \<Rightarrow> None)"

text \<open>
  The Python object of a debt holds its amounts as \<open>Decimal\<close> values of any scale; the
  row of the debt holds them with two decimal places. \<open>from_db\<close> is the object that
  loading a row gives.
\<close>

record debt_instance =
  inst_id :: nat
  inst_creditor :: user
  inst_debtor :: user
  inst_amount :: decimal
  inst_description :: string
  inst_group :: "nat option"
  inst_shared_expense_split :: "nat option"
  inst_status :: settlement_status
  inst_due_date :: "int option"
  inst_settled_amount :: decimal
  inst_settled_at :: "timestamp option"
  inst_created_by :: "user option"
  inst_is_deleted :: bool

definition from_db :: "debt \<Rightarrow> debt_instance" where
  "from_db r =
     \<lparr>inst_id = debt_id r,
      inst_creditor = debt_creditor r,
      inst_debtor = debt_debtor r,
      inst_amount = dec_of_money (debt_amount r),
      inst_description = debt_description r,
      inst_group = debt_group r,
      inst_shared_expense_split = debt_shared_expense_split r,
      inst_status = debt_status r,
      inst_due_date = debt_due_date r,
      inst_settled_amount = dec_of_money (debt_settled_amount r),
      inst_settled_at = debt_settled_at r,
      inst_created_by = debt_created_by r,
      inst_is_deleted = debt_is_deleted r\<rparr>"

text \<open>
  Writing a \<open>Decimal\<close> to a \<open>DecimalField(max_digits=12, decimal_places=2)\<close>: the value
  is quantized to two places under a precision of twelve digits, which raises
  \<open>InvalidOperation\<close> when the result has more than twelve digits.
\<close>

definition to_column :: "decimal \<Rightarrow> error + money" where
  "to_column x =
     (if \<bar>quantize2 x\<bar> < 10 ^ 12 then Inr (quantize2 x) else Inl InvalidOperation)"

text \<open>\<open>self.save()\<close>: the row that the object is written to.\<close>

definition Debt_save :: "debt_instance \<Rightarrow> error + debt" where
  "Debt_save self =
     (case to_column (inst_amount self) of
        Inl e \<Rightarrow> Inl e
      | Inr a \<Rightarrow>
          (case to_column (inst_settled_amount self) of
             Inl e \<Rightarrow> Inl e
           | Inr s \<Rightarrow>
               Inr \<lparr>debt_id = inst_id self,
                    debt_creditor = inst_creditor self,
                    debt_debtor = inst_debtor self,
                    debt_amount = a,
                    debt_description = inst_description self,
                    debt_group = inst_group self,
                    debt_shared_expense_split = inst_shared_expense_split self,
                    debt_status = inst_status self,
                    debt_due_date = inst_due_date self,
                    debt_settled_amount = s,
                    debt_settled_at = inst_settled_at self,
                    debt_created_by = inst_created_by self,
                    debt_is_deleted = inst_is_deleted self\<rparr>))"

text \<open>\<open>DebtPayment.objects.create(debt=self, amount=amount, notes=notes, created_by=self.debtor)\<close>.\<close>

definition DebtPayment_objects_create ::
  "debt_instance \<Rightarrow> decimal \<Rightarrow> string \<Rightarrow> debt_payment list \<Rightarrow> error + debt_payment list" where
  "DebtPayment_objects_create self amount notes table =
     (case to_column amount of
        Inl e \<Rightarrow> Inl e
      | Inr a \<Rightarrow>
          Inr (table @
                 [\<lparr>payment_debt = inst_id self,
                   payment_amount = a,
                   payment_method = ''CASH'',
                   payment_reference_number = [],
                   payment_notes = notes,
                   payment_created_by = Some (inst_debtor self)\<rparr>]))"

text \<open>
  The state that a payment works on: the Python object of the debt, the row of the debt
  and the table of payments. An operation returns, or raises an error; in both cases it
  leaves a state behind.
\<close>

record payment_state =
  st_object :: debt_instance
  st_row :: debt
  st_payments :: "debt_payment list"

datatype 'a outcome = Returned 'a | Raised error 'a

definition remaining_amount :: "debt_instance \<Rightarrow> decimal" where
  "remaining_amount self = dec_sub (inst_amount self) (inst_settled_amount self)"

text \<open>
  \<open>Debt.add_payment\<close>. The sum and the tests on it are made on the object, at the scale
  of the amount that is passed; the row and the payment are written afterwards, the
  payment after the debt.
\<close>

definition add_payment ::
  "timestamp \<Rightarrow> py_value \<Rightarrow> string \<Rightarrow> payment_state \<Rightarrow> payment_state outcome" where
  "add_payment now amount notes st =
     (case py_decimal amount of
        None \<Rightarrow> Raised TypeError st
      | Some a \<Rightarrow>
          (let self = st_object st;
               s = dec_add (inst_settled_amount self) a;
               self' =
                 (if inst_amount self \<le> s then
                    self\<lparr>inst_status := SETTLED,
                         inst_settled_at := Some now,
                         inst_settled_amount := inst_amount self\<rparr>
                  else if 0 < s then
                    self\<lparr>inst_settled_amount := s, inst_status := PARTIALLY_PAID\<rparr>
                  else self\<lparr>inst_settled_amount := s\<rparr>)
           in (case Debt_save self' of
                 Inl e \<Rightarrow> Raised e (st\<lparr>st_object := self'\<rparr>)
               | Inr r \<Rightarrow>
                   (case DebtPayment_objects_create self' a notes (st_payments st) of
                      Inl e \<Rightarrow> Raised e (st\<lparr>st_object := self', st_row := r\<rparr>)
                    | Inr table \<Rightarrow>
                        Returned \<lparr>st_object = self', st_row = r, st_payments = table\<rparr>))))"

definition settle_full :: "timestamp \<Rightarrow> string \<Rightarrow> payment_state \<Rightarrow> payment_state outcome" where
  "settle_full now notes st =
     (let remaining = remaining_amount (st_object st)
      in if 0 < remaining then add_payment now (PyDecimal remaining) notes st
         else Returned st)"

text \<open>
  A sequence of calls on the same object, each with its time, amount and notes; an
  error ends it.
\<close>

fun add_payments ::
  "(timestamp \<times> py_value \<times> string) list \<Rightarrow> payment_state \<Rightarrow> payment_state outcome" where
  "add_payments [] st = Returned st"
| "add_payments (call # calls) st =
     (case add_payment (fst call) (fst (snd call)) (snd (snd call)) st of
        Raised e st' \<Rightarrow> Raised e st'
      | Returned st' \<Rightarrow> add_payments calls st')"

text \<open>\<open>debt.payments\<close>: the payment rows of a debt.\<close>

definition debt_payments :: "debt \<Rightarrow> debt_payment list \<Rightarrow> debt_payment list" where
  "debt_payments self payments = filter (\<lambda>p. payment_debt p = debt_id self) payments"

definition paid_total :: "debt \<Rightarrow> debt_payment list \<Rightarrow> money" where
  "paid_total self payments = sum_list (map payment_amount (debt_payments self payments))"

text \<open>
  The rule that ties the status to the settled amount: nothing settled is \<open>PENDING\<close>,
  a part is \<open>PARTIALLY_PAID\<close>, all of it is \<open>SETTLED\<close>.
\<close>

definition status_rule :: "debt \<Rightarrow> bool" where
  "status_rule d =
     ((debt_settled_amount d = 0 \<and> debt_status d = PENDING)
      \<or> (0 < debt_settled_amount d \<and> debt_settled_amount d < debt_amount d
          \<and> debt_status d = PARTIALLY_PAID)
      \<or> (debt_settled_amount d = debt_amount d \<and> debt_status d = SETTLED))"

text \<open>
  The words of the statements about payments. A state is loaded when its object is the
  one that its row gives, as it is after the view has fetched the debt, and the amounts
  of a row fit their columns. An amount is payable when it is a \<open>Decimal\<close> or an int with
  at most two decimal places, positive, and of at most twelve digits; \<open>amount_cents\<close> is
  the amount as the column of the payment holds it.
\<close>

definition loaded :: "payment_state \<Rightarrow> bool" where
  "loaded st =
     (st_object st = from_db (st_row st)
      \<and> \<bar>debt_amount (st_row st)\<bar> < 10 ^ 12
      \<and> \<bar>debt_settled_amount (st_row st)\<bar> < 10 ^ 12)"

definition amount_cents :: "py_value \<Rightarrow> money" where
  "amount_cents v = (case py_decimal v of None \<Rightarrow> 0 | Some x \<Rightarrow> quantize2 x)"

definition payable :: "py_value \<Rightarrow> bool" where
  "payable v =
     (case py_decimal v of
        None \<Rightarrow> False
      | Some x \<Rightarrow> dec_of_money (quantize2 x) = x \<and> 0 < quantize2 x \<and> quantize2 x < 10 ^ 12)"


section \<open>Budgets and their alerts\<close>

datatype budget_status = ACTIVE | INACTIVE | EXCEEDED | COMPLETED

record budget =
  budget_id :: nat
  budget_user :: user
  budget_category :: nat
  budget_name :: string
  budget_amount :: money
  budget_start_date :: int
  budget_end_date :: int
  budget_status :: budget_status
  alert_threshold_80 :: bool
  alert_threshold_100 :: bool
  alerted_at_80 :: bool
  alerted_at_100 :: bool
  budget_is_deleted :: bool

record budget_alert =
  alert_budget :: nat
  alert_user :: user
  alert_type :: string
  alert_message :: string
  alert_is_read :: bool
  alert_sent_via_email :: bool

text \<open>
  \<open>Budget.spent_amount\<close>: Python's \<open>sum\<close> over the matching expenses, which adds the
  amounts from the left, starting at 0.
\<close>

definition spent_amount :: "expense list \<Rightarrow> budget \<Rightarrow> decimal" where
  "spent_amount expenses self =
     foldl dec_add 0
       (map (\<lambda>e. dec_of_money (expense_amount e))
          (filter (\<lambda>e. expense_created_by e = budget_user self
                       \<and> expense_category e = budget_category self
                       \<and> budget_start_date self \<le> expense_transaction_date e
                       \<and> expense_transaction_date e \<le> budget_end_date self
                       \<and> expense_status e = ''COMPLETED''
                       \<and> \<not> expense_is_deleted e) expenses))"

definition utilization_percentage :: "expense list \<Rightarrow> budget \<Rightarrow> decimal" where
  "utilization_percentage expenses self =
     (if 0 < budget_amount self
      then dec_mul (dec_div (spent_amount expenses self) (dec_of_money (budget_amount self))) 100
      else 0)"

text \<open>
  \<open>NotificationService.send_budget_alert\<close>: one alert row is created; it is marked as
  sent by email when the user has a profile with email notifications (the parameter
  \<open>email_notifications\<close>); sending the mail never fails the call.
\<close>

definition send_budget_alert ::
  "(user \<Rightarrow> bool) \<Rightarrow> user \<Rightarrow> budget \<Rightarrow> string \<Rightarrow> string \<Rightarrow> budget_alert list
     \<Rightarrow> budget_alert list" where
  "send_budget_alert email_notifications u b atype message alerts =
     alerts @
       [\<lparr>alert_budget = budget_id b,
         alert_user = u,
         alert_type = atype,
         alert_message = message,
         alert_is_read = False,
         alert_sent_via_email = email_notifications u\<rparr>]"

definition send_alert_80 :: "(user \<Rightarrow> bool) \<Rightarrow> budget \<Rightarrow> budget_alert list \<Rightarrow> budget_alert list" where
  "send_alert_80 email_notifications self alerts =
     send_budget_alert email_notifications (budget_user self) self ''80_PERCENT''
       (''You'' @ [CHR 0x27] @ ''ve used 80% of your '' @ budget_name self @ '' budget.'')
       alerts"

definition send_alert_100 :: "(user \<Rightarrow> bool) \<Rightarrow> budget \<Rightarrow> budget_alert list \<Rightarrow> budget_alert list" where
  "send_alert_100 email_notifications self alerts =
     send_budget_alert email_notifications (budget_user self) self ''EXCEEDED''
       (''Budget exceeded for '' @ budget_name self @ ''!'')
       alerts"

text \<open>
  \<open>Budget.check_and_send_alerts\<close> on the budget and the table of alerts; the expenses
  are the rows of the expense table at the time of the evaluation.
\<close>

definition check_and_send_alerts ::
  "(user \<Rightarrow> bool) \<Rightarrow> expense list \<Rightarrow> budget \<times> budget_alert list
     \<Rightarrow> budget \<times> budget_alert list" where
  "check_and_send_alerts email_notifications expenses st =
     (let self = fst st; alerts = snd st;
          utilization = utilization_percentage expenses self;
          st1 =
            (if alert_threshold_80 self \<and> \<not> alerted_at_80 self
                \<and> 80 \<le> utilization \<and> utilization < 100
             then (self\<lparr>alerted_at_80 := True\<rparr>,
                   send_alert_80 email_notifications self alerts)
             else (self, alerts));
          self1 = fst st1; alerts1 = snd st1
      in if alert_threshold_100 self1 \<and> \<not> alerted_at_100 self1 \<and> 100 \<le> utilization
         then (self1\<lparr>alerted_at_100 := True, budget_status := EXCEEDED\<rparr>,
               send_alert_100 email_notifications self1 alerts1)
         else (self1, alerts1))"

definition reset_alerts :: "budget \<Rightarrow> budget" where
  "reset_alerts self = self\<lparr>alerted_at_80 := False, alerted_at_100 := False\<rparr>"

text \<open>
  A sequence of evaluations with no reset between them; each evaluation sees its own
  state of the expense table.
\<close>

fun check_and_send_alerts_seq ::
  "(user \<Rightarrow> bool) \<Rightarrow> expense list list \<Rightarrow> budget \<times> budget_alert list
     \<Rightarrow> budget \<times> budget_alert list" where
  "check_and_send_alerts_seq email_notifications [] st = st"
| "check_and_send_alerts_seq email_notifications (expenses # rest) st =
     check_and_send_alerts_seq email_notifications rest
       (check_and_send_alerts email_notifications expenses st)"

text \<open>The alerts of one type that belong to a budget.\<close>

definition alerts_of_type :: "string \<Rightarrow> budget \<Rightarrow> budget_alert list \<Rightarrow> budget_alert list" where
  "alerts_of_type atype b alerts =
     filter (\<lambda>a. alert_budget a = budget_id b \<and> alert_type a = atype) alerts"


section \<open>Creating a shared expense\<close>

text \<open>
  Shared expenses are created through \<open>SharedExpenseSerializer\<close>, a model serializer
  with no validation of its own. The validation it inherits from its fields is: the
  expense, the group and the payer are primary keys of existing rows, and the split
  method, when given, is one of the four choices. The validated data is then inserted
  as a new row. The state is the table of shared expenses and the next primary key.
\<close>

record shared_expense_data =
  data_expense :: nat
  data_group :: nat
  data_paid_by :: user
  data_split_method :: "string option"
  data_notes :: string

definition split_method_choice :: "string \<Rightarrow> split_method option" where
  "split_method_choice s =
     (if s = ''EQUAL'' then Some EQUAL
      else if s = ''EXACT'' then Some EXACT
      else if s = ''PERCENTAGE'' then Some PERCENTAGE
      else if s = ''SHARES'' then Some SHARES
      else None)"

definition SharedExpenseSerializer_create ::
  "expense list \<Rightarrow> expense_group list \<Rightarrow> user list \<Rightarrow> shared_expense_data
     \<Rightarrow> shared_expense list \<times> nat \<Rightarrow> error + shared_expense list \<times> nat" where
  "SharedExpenseSerializer_create expenses groups users data st =
     (case find (\<lambda>e. expense_id e = data_expense data) expenses of
        None \<Rightarrow> Inl ValidationError
      | Some e \<Rightarrow>
          (case find (\<lambda>g. group_id g = data_group data) groups of
             None \<Rightarrow> Inl ValidationError
           | Some g \<Rightarrow>
               if data_paid_by data \<notin> set users then Inl ValidationError
               else
                 (case (case data_split_method data of
                          None \<Rightarrow> Some EQUAL
                        | Some s \<Rightarrow> split_method_choice s) of
                    None \<Rightarrow> Inl ValidationError
                  | Some m \<Rightarrow>
                      Inr (fst st @
                             [\<lparr>se_id = snd st,
                               se_expense = e,
                               se_group = g,
                               se_paid_by = data_paid_by data,
                               se_split_method = m,
                               se_notes = data_notes data,
                               se_is_deleted = False\<rparr>],
                           Suc (snd st)))))"

text \<open>The shared expenses that reference an expense.\<close>

definition shared_info :: "nat \<Rightarrow> shared_expense list \<Rightarrow> shared_expense list" where
  "shared_info k table = filter (\<lambda>s. expense_id (se_expense s) = k) table"


section \<open>Balance summary of a group\<close>

text \<open>
  \<open>queryset.aggregate(total=Sum(name))\<close>: the name is resolved against the fields of
  the model of the queryset, and a name that is no field raises \<open>FieldError\<close>, whatever
  the rows are. Only sums of decimal fields are modelled: the argument \<open>columns\<close> lists
  the decimal fields of the model with their columns; the sum skips the empty cells and
  is \<open>None\<close> when nothing is left to add.
\<close>

definition aggregate_Sum ::
  "(string \<times> ('r \<Rightarrow> money option)) list \<Rightarrow> string \<Rightarrow> 'r list \<Rightarrow> error + money option" where
  "aggregate_Sum columns name rows =
     (case map_of columns name of
        None \<Rightarrow> Inl FieldError
      | Some column \<Rightarrow>
          (case List.map_filter column rows of
             [] \<Rightarrow> Inr None
           | v # vs \<Rightarrow> Inr (Some (sum_list (v # vs)))))"

text \<open>
  \<open>SharedExpense\<close> declares the fields \<open>expense\<close>, \<open>group\<close>, \<open>paid_by\<close>, \<open>split_method\<close>
  and \<open>notes\<close>, and inherits the key, the time stamps, the user tracking and the soft
  deletion fields: none of them is a decimal field, and none is called \<open>amount\<close>.
  Its \<open>amount\<close> is a Python property that reads \<open>self.expense.amount\<close>, which a query
  does not see. \<open>SharedExpenseSplit\<close> has the decimal fields \<open>amount\<close> and \<open>percentage\<close>.
\<close>

definition SharedExpense_decimal_fields ::
  "(string \<times> (shared_expense \<Rightarrow> money option)) list" where
  "SharedExpense_decimal_fields = []"

definition SharedExpenseSplit_decimal_fields ::
  "(string \<times> (shared_expense_split \<Rightarrow> money option)) list" where
  "SharedExpenseSplit_decimal_fields =
     [(''amount'', \<lambda>s. Some (split_amount s)), (''percentage'', split_percentage)]"

record member_balance =
  balance_paid :: money
  balance_owed :: money
  balance_balance :: money

text \<open>\<open>total or Decimal('0.00')\<close>: \<open>None\<close> and zero both give zero.\<close>

definition or_zero :: "money option \<Rightarrow> money" where
  "or_zero v = (case v of None \<Rightarrow> 0 | Some t \<Rightarrow> t)"

text \<open>
  The loop of \<open>ExpenseGroup.get_balance_summary\<close> over the members. The filters on
  the shared expense of a split (\<open>shared_expense__group\<close>, \<open>shared_expense__is_deleted\<close>)
  are joins with the table of shared expenses.
\<close>

fun balance_loop ::
  "expense_group \<Rightarrow> shared_expense list \<Rightarrow> shared_expense_split list \<Rightarrow> user list
     \<Rightarrow> (user \<rightharpoonup> member_balance) \<Rightarrow> error + (user \<rightharpoonup> member_balance)" where
  "balance_loop self table split_table [] balances = Inr balances"
| "balance_loop self table split_table (member # rest) balances =
     (case aggregate_Sum SharedExpense_decimal_fields ''amount''
             (filter (\<lambda>e. group_id (se_group e) = group_id self
                          \<and> se_paid_by e = member \<and> \<not> se_is_deleted e) table) of
        Inl err \<Rightarrow> Inl err
      | Inr paid_sum \<Rightarrow>
          (case aggregate_Sum SharedExpenseSplit_decimal_fields ''amount''
                  (filter (\<lambda>s. (case find (\<lambda>e. se_id e = se_id (split_shared_expense s)) table of
                                   None \<Rightarrow> False
                                 | Some e \<Rightarrow> group_id (se_group e) = group_id self
                                            \<and> \<not> se_is_deleted e)
                               \<and> split_user s = member) split_table) of
             Inl err \<Rightarrow> Inl err
           | Inr owed_sum \<Rightarrow>
               (let paid = or_zero paid_sum; owed = or_zero owed_sum
                in balance_loop self table split_table rest
                     (balances(member \<mapsto>
                        \<lparr>balance_paid = paid, balance_owed = owed,
                         balance_balance = paid - owed\<rparr>)))))"

definition get_balance_summary ::
  "expense_group \<Rightarrow> shared_expense list \<Rightarrow> shared_expense_split list
     \<Rightarrow> error + (user \<rightharpoonup> member_balance)" where
  "get_balance_summary self table split_table =
     balance_loop self table split_table (group_members self) Map.empty"


text \<open>
  \<open>ExpenseGroup.total_expenses\<close> adds the amounts in Python, through the property
  \<open>SharedExpense.amount\<close>.
\<close>

definition total_expenses :: "expense_group \<Rightarrow> shared_expense list \<Rightarrow> money" where
  "total_expenses self table =
     sum_list (map se_amount
       (filter (\<lambda>e. group_id (se_group e) = group_id self \<and> \<not> se_is_deleted e) table))"


section \<open>Scenario data\<close>

text \<open>
  An expense of 100.00 paid by user 1 and shared in a group of the three users 1, 2
  and 3; an empty ledger; an unsettled split of that expense.
\<close>

definition scenario_expense :: expense where
  "scenario_expense =
     \<lparr>expense_id = 1, expense_created_by = 1, expense_category = 1,
      expense_amount = 10000, expense_description = ''Dinner'',
      expense_transaction_date = 0, expense_status = ''COMPLETED'',
      expense_is_deleted = False\<rparr>"

definition scenario_group :: expense_group where
  "scenario_group =
     \<lparr>group_id = 1, group_name = ''Flat'', group_members = [1, 2, 3],
      group_admin = 1, group_is_deleted = False\<rparr>"

definition scenario_shared_expense :: shared_expense where
  "scenario_shared_expense =
     \<lparr>se_id = 1, se_expense = scenario_expense, se_group = scenario_group,
      se_paid_by = 1, se_split_method = EQUAL, se_notes = [],
      se_is_deleted = False\<rparr>"

definition empty_ledger :: ledger where
  "empty_ledger = \<lparr>splits = [], debts = [], next_pk = 0\<rparr>"

definition scenario_split :: shared_expense_split where
  "scenario_split =
     \<lparr>split_id = 7, split_shared_expense = scenario_shared_expense, split_user = 2,
      split_amount = 3333, split_percentage = None, split_is_settled = False,
      split_settled_at = None, split_settlement_notes = []\<rparr>"


text \<open>
  A new debt of 150.00 owed by user 2 to user 1, and the same debt cancelled, each as
  the state after the debt is loaded; a payment of \<open>Decimal('50.00')\<close> and one of
  the int 100; the state after these two payments.
\<close>

definition scenario_debt :: debt where
  "scenario_debt =
     \<lparr>debt_id = 4, debt_creditor = 1, debt_debtor = 2, debt_amount = 15000,
      debt_description = ''Split for: Dinner'', debt_group = Some 1,
      debt_shared_expense_split = Some 7, debt_status = PENDING, debt_due_date = None,
      debt_settled_amount = 0, debt_settled_at = None, debt_created_by = Some 1,
      debt_is_deleted = False\<rparr>"

definition scenario_cancelled_debt :: debt where
  "scenario_cancelled_debt = scenario_debt\<lparr>debt_status := CANCELLED\<rparr>"

definition scenario_state :: payment_state where
  "scenario_state =
     \<lparr>st_object = from_db scenario_debt, st_row = scenario_debt, st_payments = []\<rparr>"

definition scenario_cancelled_state :: payment_state where
  "scenario_cancelled_state =
     \<lparr>st_object = from_db scenario_cancelled_debt, st_row = scenario_cancelled_debt,
      st_payments = []\<rparr>"

definition scenario_calls :: "(timestamp \<times> py_value \<times> string) list" where
  "scenario_calls = [(1, PyDecimal 50, ''cash''), (2, PyInt 100, ''bank'')]"

definition scenario_settled_state :: payment_state where
  "scenario_settled_state =
     \<lparr>st_object = from_db (scenario_debt\<lparr>debt_status := SETTLED, debt_settled_at := Some 2,
                                          debt_settled_amount := 15000\<rparr>),
      st_row = scenario_debt\<lparr>debt_status := SETTLED, debt_settled_at := Some 2,
                              debt_settled_amount := 15000\<rparr>,
      st_payments =
        [\<lparr>payment_debt = 4, payment_amount = 5000, payment_method = ''CASH'',
          payment_reference_number = [], payment_notes = ''cash'',
          payment_created_by = Some 2\<rparr>,
         \<lparr>payment_debt = 4, payment_amount = 10000, payment_method = ''CASH'',
          payment_reference_number = [], payment_notes = ''bank'',
          payment_created_by = Some 2\<rparr>]\<rparr>"

text \<open>
  A budget of 500.00 with both thresholds enabled and no alert sent; the expense table
  before and after an expense of 320.00 is added to 300.00 already spent; a user base
  without email notifications.
\<close>

definition scenario_budget :: budget where
  "scenario_budget =
     \<lparr>budget_id = 1, budget_user = 1, budget_category = 1, budget_name = ''Food'',
      budget_amount = 50000, budget_start_date = 0, budget_end_date = 30,
      budget_status = ACTIVE, alert_threshold_80 = True, alert_threshold_100 = True,
      alerted_at_80 = False, alerted_at_100 = False, budget_is_deleted = False\<rparr>"

definition scenario_expenses_before :: "expense list" where
  "scenario_expenses_before =
     [\<lparr>expense_id = 2, expense_created_by = 1, expense_category = 1,
       expense_amount = 30000, expense_description = ''Groceries'',
       expense_transaction_date = 3, expense_status = ''COMPLETED'',
       expense_is_deleted = False\<rparr>]"

definition scenario_expenses_after :: "expense list" where
  "scenario_expenses_after =
     scenario_expenses_before @
     [\<lparr>expense_id = 3, expense_created_by = 1, expense_category = 1,
       expense_amount = 32000, expense_description = ''Party'',
       expense_transaction_date = 5, expense_status = ''COMPLETED'',
       expense_is_deleted = False\<rparr>]"

definition no_email :: "user \<Rightarrow> bool" where
  "no_email u = False"

definition scenario_alerted_budget :: budget where
  "scenario_alerted_budget = scenario_budget\<lparr>alerted_at_80 := True, alerted_at_100 := True\<rparr>"


text \<open>
  The data of a request that shares the expense a second time, with user 9, who is
  not a member of the group, as the payer.
\<close>

definition scenario_data :: shared_expense_data where
  "scenario_data =
     \<lparr>data_expense = 1, data_group = 1, data_paid_by = 9,
      data_split_method = None, data_notes = []\<rparr>"

definition scenario_settled_split :: shared_expense_split where
  "scenario_settled_split =
     scenario_split\<lparr>split_is_settled := True, split_settled_at := Some 5\<rparr>"


text \<open>The debt that the handler derives from the unsettled split on the empty ledger.\<close>

definition scenario_derived_debt :: debt where
  "scenario_derived_debt =
     \<lparr>debt_id = 0, debt_creditor = 1, debt_debtor = 2, debt_amount = 3333,
      debt_description = ''Split for: Dinner'', debt_group = Some 1,
      debt_shared_expense_split = Some 7, debt_status = PENDING, debt_due_date = None,
      debt_settled_amount = 0, debt_settled_at = None, debt_created_by = Some 1,
      debt_is_deleted = False\<rparr>"


section \<open>Decimal arithmetic: what the rounding leaves exact\<close>

text \<open>
  The digit count brackets a number between two powers of ten, so \<open>adjusted\<close> is the
  exponent of the leading digit. A stored amount of fewer than 28 digits is not changed
  by the rounding of the context, so sums of such amounts are exact and the integer
  model of stored amounts agrees with the decimal one; an amount that the number of
  participants divides is shared without rounding.
\<close>

lemma ndigits_bounds:
  "0 < n \<Longrightarrow> 10 ^ (ndigits n - 1) \<le> n \<and> n < 10 ^ ndigits n"
proof (induction n rule: ndigits.induct)
  case (1 n)
  show ?case
  proof (cases "n < 10")
    case True
    then show ?thesis using "1.prems" by simp
  next
    case False
    then have pos: "0 < n div 10" by simp
    have ih: "10 ^ (ndigits (n div 10) - 1) \<le> n div 10 \<and> n div 10 < 10 ^ ndigits (n div 10)"
      using "1.IH" [OF False pos] .
    have nd: "ndigits n = Suc (ndigits (n div 10))" using False by simp
    have lo: "10 * 10 ^ (ndigits (n div 10) - 1) \<le> n"
      using ih by linarith
    have pos_d: "0 < ndigits (n div 10)" by (subst ndigits.simps) simp
    have "10 ^ (ndigits n - 1) = (10::nat) * 10 ^ (ndigits (n div 10) - 1)"
      using nd pos_d by (cases "ndigits (n div 10)") simp_all
    moreover have "n < 10 * 10 ^ ndigits (n div 10)"
      using ih by linarith
    ultimately show ?thesis using lo nd by simp
  qed
qed

lemma pow10_powi: "pow10 e = 10 powi e"
  by (simp add: pow10_def power_int_def power_inverse [symmetric] inverse_eq_divide power_one_over)

lemma adjusted_bounds:
  assumes "x \<noteq> 0"
  shows "pow10 (adjusted x) \<le> \<bar>x\<bar> \<and> \<bar>x\<bar> < pow10 (adjusted x + 1)"
proof -
  obtain p q where pq: "quotient_of \<bar>x\<bar> = (p, q)" by (cases "quotient_of \<bar>x\<bar>")
  have q: "0 < q" using pq quotient_of_denom_pos by blast
  have x: "\<bar>x\<bar> = of_int p / of_int q" using pq quotient_of_div by blast
  have "0 < \<bar>x\<bar>" using assms by simp
  then have p: "0 < p" using x q by (simp add: zero_less_divide_iff)
  define dp where "dp = ndigits (nat p)"
  define dq where "dq = ndigits (nat q)"
  have bp: "10 ^ (dp - 1) \<le> nat p \<and> nat p < 10 ^ dp"
    unfolding dp_def using ndigits_bounds [of "nat p"] p by simp
  have bq: "10 ^ (dq - 1) \<le> nat q \<and> nat q < 10 ^ dq"
    unfolding dq_def using ndigits_bounds [of "nat q"] q by simp
  have dp1: "0 < dp" unfolding dp_def by (subst ndigits.simps) simp
  have dq1: "0 < dq" unfolding dq_def by (subst ndigits.simps) simp
  define s where "s = int dp - int dq"
  have adj: "adjusted x = (if pow10 s \<le> \<bar>x\<bar> then s else s - 1)"
    by (simp add: adjusted_def pq Let_def s_def dp_def dq_def)
  have rp: "(10::rat) ^ (dp - 1) \<le> of_int p \<and> (of_int p :: rat) < 10 ^ dp"
  proof -
    have "int (10 ^ (dp - 1)) \<le> p \<and> p < int (10 ^ dp)" using bp p by linarith
    then have "(of_int (int (10 ^ (dp - 1))) :: rat) \<le> of_int p \<and> (of_int p :: rat) < of_int (int (10 ^ dp))"
      by (simp only: of_int_le_iff of_int_less_iff)
    then show ?thesis by simp
  qed
  have rq: "(10::rat) ^ (dq - 1) \<le> of_int q \<and> (of_int q :: rat) < 10 ^ dq"
  proof -
    have "int (10 ^ (dq - 1)) \<le> q \<and> q < int (10 ^ dq)" using bq q by linarith
    then have "(of_int (int (10 ^ (dq - 1))) :: rat) \<le> of_int q \<and> (of_int q :: rat) < of_int (int (10 ^ dq))"
      by (simp only: of_int_le_iff of_int_less_iff)
    then show ?thesis by simp
  qed
  have qpos: "(0::rat) < of_int q" using q by simp
  have up: "\<bar>x\<bar> < pow10 (s + 1)"
  proof -
    have "\<bar>x\<bar> < 10 ^ dp / of_int q"
      unfolding x using rp qpos by (simp add: divide_strict_right_mono)
    also have "\<dots> \<le> 10 ^ dp / 10 ^ (dq - 1)"
      using rq by (simp add: frac_le)
    also have "\<dots> = 10 powi (int dp - int (dq - 1))"
      by (simp add: power_int_diff)
    also have "\<dots> = pow10 (s + 1)"
    proof -
      have "int dp - int (dq - 1) = s + 1" using dq1 by (simp add: s_def of_nat_diff)
      then show ?thesis by (simp only: pow10_powi)
    qed
    finally show ?thesis .
  qed
  have lo: "pow10 (s - 1) \<le> \<bar>x\<bar>"
  proof -
    have "s - 1 = int (dp - 1) - int dq" using dp1 by (simp add: s_def of_nat_diff)
    then have "pow10 (s - 1) = 10 powi (int (dp - 1) - int dq)"
      by (simp only: pow10_powi)
    also have "\<dots> = 10 ^ (dp - 1) / 10 ^ dq"
      by (simp add: power_int_diff)
    also have "\<dots> \<le> of_int p / 10 ^ dq"
      using rp by (simp add: divide_right_mono)
    also have "\<dots> \<le> of_int p / of_int q"
      using rq qpos p by (simp add: frac_le)
    finally show ?thesis unfolding x .
  qed
  show ?thesis
  proof (cases "pow10 s \<le> \<bar>x\<bar>")
    case True
    then show ?thesis using adj up by simp
  next
    case False
    then show ?thesis using adj lo by simp
  qed
qed


lemma round_half_even_of_int: "round_half_even (of_int m) = m"
  by (simp add: round_half_even_def)

lemma pow10_mono: "a \<le> b \<Longrightarrow> pow10 a \<le> pow10 b"
  by (simp add: pow10_powi power_int_increasing)

lemma dec_fix_money:
  assumes "\<bar>c\<bar> < 10 ^ prec"
  shows "dec_fix (dec_of_money c) = dec_of_money c"
proof (cases "c = 0")
  case True
  then show ?thesis by (simp add: dec_fix_def dec_of_money_def)
next
  case False
  define x :: rat where "x = of_int c / 100"
  have x0: "x \<noteq> 0" using False by (simp add: x_def)
  have "\<bar>x\<bar> = of_int \<bar>c\<bar> / 100" by (simp add: x_def)
  also have "\<dots> < of_int (10 ^ prec) / 100"
    using assms by (simp add: divide_strict_right_mono del: of_int_power of_int_numeral)
  also have "\<dots> = pow10 26" by (simp add: pow10_def prec_def)
  finally have small: "\<bar>x\<bar> < pow10 26" .
  have "adjusted x < 26"
  proof (rule ccontr)
    assume "\<not> adjusted x < 26"
    then have "pow10 26 \<le> pow10 (adjusted x)" by (simp add: pow10_mono)
    then show False using adjusted_bounds [OF x0] small by linarith
  qed
  define n where "n = nat (27 - adjusted x)"
  have n2: "2 \<le> n" using \<open>adjusted x < 26\<close> by (simp add: n_def)
  have e: "adjusted x - (int prec - 1) = - int n"
    using \<open>adjusted x < 26\<close> by (simp add: n_def prec_def)
  have p: "pow10 (- int n) = 1 / 10 ^ n"
    using n2 by (simp add: pow10_def)
  have split: "(10::rat) ^ n = 100 * 10 ^ (n - 2)"
  proof -
    have "n = 2 + (n - 2)" using n2 by simp
    then have "(10::rat) ^ n = 10 ^ (2 + (n - 2))" by simp
    then show ?thesis by (simp only: power_add) simp
  qed
  have q: "x / pow10 (- int n) = of_int (c * 10 ^ (n - 2))"
    by (simp add: p x_def split)
  have "dec_fix x = of_int (round_half_even (x / pow10 (- int n))) * pow10 (- int n)"
    using x0 e by (simp add: dec_fix_def Let_def)
  also have "\<dots> = of_int (c * 10 ^ (n - 2)) * pow10 (- int n)"
    by (simp only: q round_half_even_of_int)
  also have "\<dots> = of_int (c * 10 ^ (n - 2)) / 10 ^ n"
    by (simp only: p) simp
  also have "\<dots> = x"
    by (simp add: x_def split)
  finally show ?thesis by (simp add: x_def dec_of_money_def)
qed

lemma dec_add_money:
  "\<bar>a + b\<bar> < 10 ^ prec \<Longrightarrow>
     dec_add (dec_of_money a) (dec_of_money b) = dec_of_money (a + b)"
proof -
  assume h: "\<bar>a + b\<bar> < 10 ^ prec"
  have "dec_of_money a + dec_of_money b = dec_of_money (a + b)"
    by (simp add: dec_of_money_def add_divide_distrib)
  then show ?thesis using dec_fix_money [OF h] by (simp add: dec_add_def)
qed

lemma quantize2_money: "quantize2 (dec_of_money c) = c"
  by (simp add: quantize2_def dec_of_money_def round_half_even_of_int)


lemma equal_share_exact:
  assumes "int n dvd c" and "0 < n" and "\<bar>c\<bar> < 10 ^ prec"
  shows "quantize2 (dec_div (dec_of_money c) (of_nat n)) = c div int n"
proof -
  obtain k where k: "c = int n * k" using assms(1) by (auto simp: dvd_def)
  have kd: "c div int n = k" using k assms(2) by simp
  have "\<bar>k\<bar> \<le> \<bar>c\<bar>"
  proof -
    have "\<bar>c\<bar> = int n * \<bar>k\<bar>" by (simp add: k abs_mult)
    moreover have "1 * \<bar>k\<bar> \<le> int n * \<bar>k\<bar>"
      using assms(2) by (intro mult_right_mono) simp_all
    ultimately show ?thesis by simp
  qed
  then have small: "\<bar>k\<bar> < 10 ^ prec" using assms(3) by linarith
  have "dec_of_money c / of_nat n = dec_of_money k"
    using assms(2) by (simp add: dec_of_money_def k)
  then have "dec_div (dec_of_money c) (of_nat n) = dec_of_money k"
    using dec_fix_money [OF small] by (simp add: dec_div_def)
  then show ?thesis by (simp add: quantize2_money kd)
qed


section \<open>Settling and unsettling a split\<close>

text \<open>
  C10. Settlement of a split is reversible: \<open>settle\<close> sets \<open>is_settled\<close> and stamps
  \<open>settled_at\<close> with the current time, whatever the notes; \<open>unsettle\<close> always leaves
  \<open>is_settled\<close> false and \<open>settled_at\<close> empty; so a split that starts unsettled
  (\<open>is_settled\<close> false, \<open>settled_at\<close> empty) has the same pair of fields after \<open>settle\<close>
  followed by \<open>unsettle\<close>.
\<close>

theorem settle_unsettle_round_trip:
  "split_is_settled (settle now notes s)
   \<and> split_settled_at (settle now notes s) = Some now
   \<and> \<not> split_is_settled (unsettle s')
   \<and> split_settled_at (unsettle s') = None
   \<and> (\<not> split_is_settled s \<and> split_settled_at s = None \<longrightarrow>
        (split_is_settled (unsettle (settle now notes s)),
         split_settled_at (unsettle (settle now notes s)))
        = (split_is_settled s, split_settled_at s))"
  by (simp add: settle_def unsettle_def Let_def)

theorem settle_unsettle_round_trip_witness:
  "\<not> split_is_settled scenario_split \<and> split_settled_at scenario_split = None
   \<and> split_is_settled (settle 5 ''paid in cash'' scenario_split)
   \<and> split_settled_at (settle 5 ''paid in cash'' scenario_split) = Some 5
   \<and> (split_is_settled (unsettle (settle 5 ''paid in cash'' scenario_split)),
       split_settled_at (unsettle (settle 5 ''paid in cash'' scenario_split)))
      = (split_is_settled scenario_split, split_settled_at scenario_split)"
  using settle_unsettle_round_trip [of 5 "''paid in cash''" scenario_split scenario_split]
  by (simp add: scenario_split_def)


section \<open>Payments on a debt: what a call does\<close>

text \<open>
  A payable amount on a loaded state: the sum is exact, both writes succeed, and the
  call returns with the row and the object in step.
\<close>

lemma dec_of_money_le: "dec_of_money a \<le> dec_of_money b \<longleftrightarrow> a \<le> b"
  by (simp add: dec_of_money_def divide_le_cancel)

lemma dec_of_money_less: "dec_of_money a < dec_of_money b \<longleftrightarrow> a < b"
  by (simp add: dec_of_money_def divide_less_cancel)

lemma dec_of_money_pos: "0 < dec_of_money a \<longleftrightarrow> 0 < a"
  by (simp add: dec_of_money_def)

lemma to_column_money: "\<bar>c\<bar> < 10 ^ 12 \<Longrightarrow> to_column (dec_of_money c) = Inr c"
  by (simp add: to_column_def quantize2_money)

lemma payable_cents:
  assumes "payable v"
  shows "py_decimal v = Some (dec_of_money (amount_cents v))"
    and "0 < amount_cents v" and "amount_cents v < 10 ^ 12"
  using assms by (auto simp: payable_def amount_cents_def split: option.splits)

lemma add_payment_payable:
  assumes l: "loaded st" and p: "payable amount"
  shows "add_payment now amount notes st =
           Returned
             \<lparr>st_object =
                from_db
                  (if debt_amount (st_row st) \<le> debt_settled_amount (st_row st) + amount_cents amount
                   then (st_row st)\<lparr>debt_status := SETTLED, debt_settled_at := Some now,
                                     debt_settled_amount := debt_amount (st_row st)\<rparr>
                   else if 0 < debt_settled_amount (st_row st) + amount_cents amount
                   then (st_row st)\<lparr>debt_settled_amount :=
                                       debt_settled_amount (st_row st) + amount_cents amount,
                                     debt_status := PARTIALLY_PAID\<rparr>
                   else (st_row st)\<lparr>debt_settled_amount :=
                                       debt_settled_amount (st_row st) + amount_cents amount\<rparr>),
              st_row =
                (if debt_amount (st_row st) \<le> debt_settled_amount (st_row st) + amount_cents amount
                   then (st_row st)\<lparr>debt_status := SETTLED, debt_settled_at := Some now,
                                     debt_settled_amount := debt_amount (st_row st)\<rparr>
                   else if 0 < debt_settled_amount (st_row st) + amount_cents amount
                   then (st_row st)\<lparr>debt_settled_amount :=
                                       debt_settled_amount (st_row st) + amount_cents amount,
                                     debt_status := PARTIALLY_PAID\<rparr>
                   else (st_row st)\<lparr>debt_settled_amount :=
                                       debt_settled_amount (st_row st) + amount_cents amount\<rparr>),
              st_payments =
                st_payments st @
                  [\<lparr>payment_debt = debt_id (st_row st),
                    payment_amount = amount_cents amount,
                    payment_method = ''CASH'',
                    payment_reference_number = [],
                    payment_notes = notes,
                    payment_created_by = Some (debt_debtor (st_row st))\<rparr>]\<rparr>"
proof -
  define r where "r = st_row st"
  define c where "c = amount_cents amount"
  have obj: "st_object st = from_db r"
    and ra: "\<bar>debt_amount r\<bar> < 10 ^ 12" and rs: "\<bar>debt_settled_amount r\<bar> < 10 ^ 12"
    using l by (simp_all add: loaded_def r_def)
  have pd: "py_decimal amount = Some (dec_of_money c)" and c0: "0 < c" and c12: "c < 10 ^ 12"
    using payable_cents [OF p] by (simp_all add: c_def)
  have "\<bar>debt_settled_amount r + c\<bar> < 10 ^ prec"
    using rs c0 c12 by (simp add: prec_def)
  then have sum: "dec_add (dec_of_money (debt_settled_amount r)) (dec_of_money c)
                    = dec_of_money (debt_settled_amount r + c)"
    by (rule dec_add_money)
  have cc: "to_column (dec_of_money c) = Inr c"
    using c0 c12 by (simp add: to_column_money)
  have ca: "to_column (dec_of_money (debt_amount r)) = Inr (debt_amount r)"
    using ra by (simp add: to_column_money)
  have cs: "\<not> debt_amount r \<le> debt_settled_amount r + c \<Longrightarrow>
              to_column (dec_of_money (debt_settled_amount r + c)) = Inr (debt_settled_amount r + c)"
    using ra rs c0 by (intro to_column_money) linarith
  show ?thesis
    unfolding r_def [symmetric] c_def [symmetric]
    by (simp add: add_payment_def pd obj Let_def from_db_def sum Debt_save_def ca cs cc
          DebtPayment_objects_create_def dec_of_money_le dec_of_money_pos)
qed


lemma add_payment_payable_facts:
  assumes l: "loaded st" and p: "payable amount"
  shows "\<exists>st' pay. add_payment now amount notes st = Returned st'
           \<and> loaded st'
           \<and> debt_id (st_row st') = debt_id (st_row st)
           \<and> debt_amount (st_row st') = debt_amount (st_row st)
           \<and> debt_settled_amount (st_row st')
               = min (debt_amount (st_row st))
                     (debt_settled_amount (st_row st) + amount_cents amount)
           \<and> debt_status (st_row st')
               = (if debt_amount (st_row st) \<le> debt_settled_amount (st_row st) + amount_cents amount
                  then SETTLED
                  else if 0 < debt_settled_amount (st_row st) + amount_cents amount
                  then PARTIALLY_PAID
                  else debt_status (st_row st))
           \<and> st_payments st' = st_payments st @ [pay]
           \<and> payment_debt pay = debt_id (st_row st)
           \<and> payment_amount pay = amount_cents amount"
proof -
  have ra: "\<bar>debt_amount (st_row st)\<bar> < 10 ^ 12"
    and rs: "\<bar>debt_settled_amount (st_row st)\<bar> < 10 ^ 12"
    using l by (simp_all add: loaded_def)
  have c0: "0 < amount_cents amount" using payable_cents [OF p] by simp
  show ?thesis
    unfolding add_payment_payable [OF l p]
    using ra rs c0 by (auto simp: loaded_def min_def)
qed

lemma add_payment_keeps_rule:
  assumes "loaded st" and "payable amount"
    and "0 < debt_amount (st_row st)" and "status_rule (st_row st)"
    and "debt_settled_amount (st_row st)
           = min (debt_amount (st_row st)) (paid_total (st_row st) (st_payments st))"
  shows "\<exists>st' pay. add_payment now amount notes st = Returned st'
           \<and> st_payments st' = st_payments st @ [pay]
           \<and> payment_debt pay = debt_id (st_row st)
           \<and> payment_amount pay = amount_cents amount
           \<and> debt_id (st_row st') = debt_id (st_row st)
           \<and> debt_amount (st_row st') = debt_amount (st_row st)
           \<and> loaded st' \<and> status_rule (st_row st')
           \<and> debt_settled_amount (st_row st')
               = min (debt_amount (st_row st')) (paid_total (st_row st') (st_payments st'))"
proof -
  obtain st' pay where r: "add_payment now amount notes st = Returned st'"
    and f: "loaded st'" "debt_id (st_row st') = debt_id (st_row st)"
      "debt_amount (st_row st') = debt_amount (st_row st)"
      "debt_settled_amount (st_row st')
               = min (debt_amount (st_row st))
                     (debt_settled_amount (st_row st) + amount_cents amount)"
      "debt_status (st_row st')
               = (if debt_amount (st_row st) \<le> debt_settled_amount (st_row st) + amount_cents amount
                  then SETTLED
                  else if 0 < debt_settled_amount (st_row st) + amount_cents amount
                  then PARTIALLY_PAID
                  else debt_status (st_row st))"
      "st_payments st' = st_payments st @ [pay]"
      "payment_debt pay = debt_id (st_row st)"
      "payment_amount pay = amount_cents amount"
    using add_payment_payable_facts [OF assms(1,2)] by blast
  have c0: "0 < amount_cents amount" using payable_cents [OF assms(2)] by simp
  have nonneg: "0 \<le> debt_settled_amount (st_row st)"
    using assms(3,4) by (auto simp: status_rule_def)
  have pt: "paid_total (st_row st') (st_payments st')
              = paid_total (st_row st) (st_payments st) + amount_cents amount"
    using f(2,6,7,8) by (simp add: paid_total_def debt_payments_def)
  have "status_rule (st_row st')"
    using f(3,4,5) assms(3) c0 nonneg by (auto simp: status_rule_def min_def split: if_splits)
  moreover have "debt_settled_amount (st_row st')
               = min (debt_amount (st_row st')) (paid_total (st_row st') (st_payments st'))"
    using f(3,4) pt assms(5) c0 by (auto simp: min_def split: if_splits)
  ultimately show ?thesis using r f by blast
qed

lemma scenario_amounts:
  "payable (PyDecimal 50)" "payable (PyInt 100)"
  "amount_cents (PyDecimal 50) = 5000" "amount_cents (PyInt 100) = 10000"
  by code_simp+

lemma scenario_state_loaded:
  "loaded scenario_state" "loaded scenario_cancelled_state"
  by (simp_all add: loaded_def scenario_state_def scenario_cancelled_state_def
        scenario_cancelled_debt_def scenario_debt_def)

lemma scenario_more_amounts:
  "payable (PyDecimal 200)" "amount_cents (PyDecimal 200) = 20000"
  "payable (PyDecimal (1 / 100))" "amount_cents (PyDecimal (1 / 100)) = 1"
  "payable (PyDecimal 30)" "amount_cents (PyDecimal 30) = 3000"
  by code_simp+

text \<open>
  The errors of a call. A float, a string and every value that is neither a \<open>Decimal\<close>
  nor an int raise \<open>TypeError\<close> before anything is changed. An amount of more than twelve digits raises \<open>InvalidOperation\<close> when the
  payment is written, after the debt has been saved as settled. No other error is
  raised. An amount with a third decimal place is added as it is and rounded when it is
  stored: 149.995 on the new debt of 150.00 leaves the row at 150.00 settled with the
  status \<open>PARTIALLY_PAID\<close>.
\<close>

lemma add_payment_type_error:
  "add_payment now PyFloat notes st = Raised TypeError st"
  "add_payment now (PyStr s) notes st = Raised TypeError st"
  "add_payment now PyOther notes st = Raised TypeError st"
  by (simp_all add: add_payment_def py_decimal_def)

lemma add_payment_third_place:
  "add_payment 1 (PyDecimal (149995 / 1000)) [] scenario_state =
     Returned
       \<lparr>st_object =
          (from_db scenario_debt)\<lparr>inst_settled_amount := 149995 / 1000,
                                  inst_status := PARTIALLY_PAID\<rparr>,
        st_row = scenario_debt\<lparr>debt_settled_amount := 15000, debt_status := PARTIALLY_PAID\<rparr>,
        st_payments =
          [\<lparr>payment_debt = 4, payment_amount = 15000, payment_method = ''CASH'',
            payment_reference_number = [], payment_notes = [],
            payment_created_by = Some 2\<rparr>]\<rparr>"
  by code_simp

lemma add_payment_beyond_column:
  assumes l: "loaded st" and a: "py_decimal amount = Some (dec_of_money c)"
    and big: "10 ^ 12 \<le> c" and c28: "c < 10 ^ 27"
    and s0: "0 \<le> debt_settled_amount (st_row st)"
  shows "add_payment now amount notes st =
           Raised InvalidOperation
             (st\<lparr>st_object :=
                   from_db ((st_row st)\<lparr>debt_status := SETTLED, debt_settled_at := Some now,
                                         debt_settled_amount := debt_amount (st_row st)\<rparr>),
                 st_row := (st_row st)\<lparr>debt_status := SETTLED, debt_settled_at := Some now,
                                        debt_settled_amount := debt_amount (st_row st)\<rparr>\<rparr>)"
proof -
  define r where "r = st_row st"
  have obj: "st_object st = from_db r"
    and ra: "\<bar>debt_amount r\<bar> < 10 ^ 12" and rs: "\<bar>debt_settled_amount r\<bar> < 10 ^ 12"
    using l by (simp_all add: loaded_def r_def)
  have "\<bar>debt_settled_amount r + c\<bar> < 10 ^ prec"
    using rs big c28 by (simp add: prec_def)
  then have sum: "dec_add (dec_of_money (debt_settled_amount r)) (dec_of_money c)
                    = dec_of_money (debt_settled_amount r + c)"
    by (rule dec_add_money)
  have over: "debt_amount r \<le> debt_settled_amount r + c"
    using ra big s0 by (simp add: r_def)
  have ca: "to_column (dec_of_money (debt_amount r)) = Inr (debt_amount r)"
    using ra by (simp add: to_column_money)
  have cc: "to_column (dec_of_money c) = Inl InvalidOperation"
    using big by (simp add: to_column_def quantize2_money)
  show ?thesis
    unfolding r_def [symmetric]
    by (simp add: add_payment_def a obj Let_def from_db_def sum over Debt_save_def ca cc
          DebtPayment_objects_create_def dec_of_money_le)
qed

lemma add_payment_raises:
  "add_payment now amount notes st = Raised e st' \<Longrightarrow> e = TypeError \<or> e = InvalidOperation"
  by (auto simp: add_payment_def Let_def Debt_save_def DebtPayment_objects_create_def
        to_column_def split: option.splits sum.splits if_splits)


section \<open>Payments on a debt: the settled amount and the payment rows\<close>

text \<open>
  C2, as the code has it. Take a debt as it is loaded from its row, with a positive
  amount, a status that follows the rule and a settled amount that is the smaller of
  its amount and the sum of its payment rows (every new debt is such a debt), and any
  finite sequence of calls of \<open>add_payment\<close> with payable amounts. Every call is
  accepted, also one beyond the remaining balance, and every payment is recorded in
  full, in the order of the calls. Afterwards the settled amount never exceeds the
  amount, the status follows the rule, and the settled amount is the smaller of the
  amount and the sum of the payment rows: it is that sum as long as the sum does not
  exceed the amount.
\<close>

theorem add_payments_settled_amount:
  assumes "loaded st" and "0 < debt_amount (st_row st)" and "status_rule (st_row st)"
    and "debt_settled_amount (st_row st)
           = min (debt_amount (st_row st)) (paid_total (st_row st) (st_payments st))"
    and "\<forall>call \<in> set calls. payable (fst (snd call))"
  shows "\<exists>st' new. add_payments calls st = Returned st'
           \<and> st_payments st' = st_payments st @ new
           \<and> map payment_amount new = map (\<lambda>call. amount_cents (fst (snd call))) calls
           \<and> list_all (\<lambda>pay. payment_debt pay = debt_id (st_row st)) new
           \<and> debt_id (st_row st') = debt_id (st_row st)
           \<and> debt_amount (st_row st') = debt_amount (st_row st)
           \<and> debt_settled_amount (st_row st') \<le> debt_amount (st_row st')
           \<and> status_rule (st_row st')
           \<and> debt_settled_amount (st_row st')
               = min (debt_amount (st_row st')) (paid_total (st_row st') (st_payments st'))
           \<and> paid_total (st_row st') (st_payments st')
               = paid_total (st_row st) (st_payments st)
                 + sum_list (map (\<lambda>call. amount_cents (fst (snd call))) calls)"
  using assms
proof (induction calls arbitrary: st)
  case Nil
  show ?case
    using Nil.prems by (intro exI [of _ st] exI [of _ "[]"]) (simp add: min_def)
next
  case (Cons call calls)
  have p: "payable (fst (snd call))" and rest: "\<forall>c \<in> set calls. payable (fst (snd c))"
    using Cons.prems(5) by simp_all
  obtain st1 pay where r: "add_payment (fst call) (fst (snd call)) (snd (snd call)) st = Returned st1"
    and f: "st_payments st1 = st_payments st @ [pay]"
      "payment_debt pay = debt_id (st_row st)"
      "payment_amount pay = amount_cents (fst (snd call))"
      "debt_id (st_row st1) = debt_id (st_row st)"
      "debt_amount (st_row st1) = debt_amount (st_row st)"
      "loaded st1" "status_rule (st_row st1)"
      "debt_settled_amount (st_row st1)
               = min (debt_amount (st_row st1)) (paid_total (st_row st1) (st_payments st1))"
    using add_payment_keeps_rule [OF Cons.prems(1) p Cons.prems(2,3,4)] by blast
  have pos1: "0 < debt_amount (st_row st1)" using f(5) Cons.prems(2) by simp
  obtain st' new where ih: "add_payments calls st1 = Returned st'"
      "st_payments st' = st_payments st1 @ new"
      "map payment_amount new = map (\<lambda>call. amount_cents (fst (snd call))) calls"
      "list_all (\<lambda>pay. payment_debt pay = debt_id (st_row st1)) new"
      "debt_id (st_row st') = debt_id (st_row st1)"
      "debt_amount (st_row st') = debt_amount (st_row st1)"
      "debt_settled_amount (st_row st') \<le> debt_amount (st_row st')"
      "status_rule (st_row st')"
      "debt_settled_amount (st_row st')
               = min (debt_amount (st_row st')) (paid_total (st_row st') (st_payments st'))"
      "paid_total (st_row st') (st_payments st')
               = paid_total (st_row st1) (st_payments st1)
                 + sum_list (map (\<lambda>call. amount_cents (fst (snd call))) calls)"
    using Cons.IH [OF f(6) pos1 f(7) f(8) rest] by blast
  have pt1: "paid_total (st_row st1) (st_payments st1)
               = paid_total (st_row st) (st_payments st) + amount_cents (fst (snd call))"
    using f(1,2,3,4) by (simp add: paid_total_def debt_payments_def)
  show ?case
  proof (intro exI [of _ st'] exI [of _ "pay # new"] conjI)
    show "add_payments (call # calls) st = Returned st'" using r ih(1) by simp
    show "st_payments st' = st_payments st @ pay # new" using ih(2) f(1) by simp
    show "map payment_amount (pay # new)
            = map (\<lambda>call. amount_cents (fst (snd call))) (call # calls)"
      using ih(3) f(3) by simp
    show "list_all (\<lambda>pay. payment_debt pay = debt_id (st_row st)) (pay # new)"
      using ih(4) f(2,4) by simp
    show "debt_id (st_row st') = debt_id (st_row st)" using ih(5) f(4) by simp
    show "debt_amount (st_row st') = debt_amount (st_row st)" using ih(6) f(5) by simp
    show "debt_settled_amount (st_row st') \<le> debt_amount (st_row st')" by (rule ih(7))
    show "status_rule (st_row st')" by (rule ih(8))
    show "debt_settled_amount (st_row st')
               = min (debt_amount (st_row st')) (paid_total (st_row st') (st_payments st'))"
      by (rule ih(9))
    show "paid_total (st_row st') (st_payments st')
               = paid_total (st_row st) (st_payments st)
                 + sum_list (map (\<lambda>call. amount_cents (fst (snd call))) (call # calls))"
      using ih(10) pt1 by simp
  qed
qed

theorem add_payments_settled_amount_witness:
  "loaded scenario_state \<and> 0 < debt_amount (st_row scenario_state)
   \<and> status_rule (st_row scenario_state)
   \<and> debt_settled_amount (st_row scenario_state)
       = min (debt_amount (st_row scenario_state))
             (paid_total (st_row scenario_state) (st_payments scenario_state))
   \<and> list_all (\<lambda>call. payable (fst (snd call))) scenario_calls
   \<and> (\<exists>st' new. add_payments scenario_calls scenario_state = Returned st'
           \<and> st_payments st' = st_payments scenario_state @ new
           \<and> map payment_amount new = [5000, 10000]
           \<and> debt_settled_amount (st_row st') = 15000
           \<and> debt_amount (st_row st') = 15000
           \<and> debt_status (st_row st') = SETTLED
           \<and> paid_total (st_row st') (st_payments st') = 15000)"
proof -
  have h1: "loaded scenario_state" by (rule scenario_state_loaded)
  have h2: "0 < debt_amount (st_row scenario_state)"
    and h3: "status_rule (st_row scenario_state)"
    and h4: "debt_settled_amount (st_row scenario_state)
       = min (debt_amount (st_row scenario_state))
             (paid_total (st_row scenario_state) (st_payments scenario_state))"
    and a: "debt_amount (st_row scenario_state) = 15000"
    and pt: "paid_total (st_row scenario_state) (st_payments scenario_state) = 0"
    by (simp_all add: scenario_state_def scenario_debt_def status_rule_def paid_total_def
          debt_payments_def)
  have h5: "\<forall>call \<in> set scenario_calls. payable (fst (snd call))"
    by (simp add: scenario_calls_def scenario_amounts)
  have h5': "list_all (\<lambda>call. payable (fst (snd call))) scenario_calls"
    using h5 by (simp add: list_all_iff)
  obtain st' new where r: "add_payments scenario_calls scenario_state = Returned st'"
    and f: "st_payments st' = st_payments scenario_state @ new"
      "map payment_amount new = map (\<lambda>call. amount_cents (fst (snd call))) scenario_calls"
      "debt_amount (st_row st') = debt_amount (st_row scenario_state)"
      "status_rule (st_row st')"
      "debt_settled_amount (st_row st')
         = min (debt_amount (st_row st')) (paid_total (st_row st') (st_payments st'))"
      "paid_total (st_row st') (st_payments st')
         = paid_total (st_row scenario_state) (st_payments scenario_state)
           + sum_list (map (\<lambda>call. amount_cents (fst (snd call))) scenario_calls)"
    using add_payments_settled_amount [OF h1 h2 h3 h4 h5] by blast
  have m: "map payment_amount new = [5000, 10000]"
    using f(2) by (simp add: scenario_calls_def scenario_amounts)
  have t: "paid_total (st_row st') (st_payments st') = 15000"
    using f(6) pt by (simp add: scenario_calls_def scenario_amounts)
  have am: "debt_amount (st_row st') = 15000" using f(3) a by simp
  have se: "debt_settled_amount (st_row st') = 15000" using f(5) t am by simp
  have "debt_status (st_row st') = SETTLED"
    using f(4) se am by (simp add: status_rule_def)
  then have "\<exists>st' new. add_payments scenario_calls scenario_state = Returned st'
           \<and> st_payments st' = st_payments scenario_state @ new
           \<and> map payment_amount new = [5000, 10000]
           \<and> debt_settled_amount (st_row st') = 15000
           \<and> debt_amount (st_row st') = 15000
           \<and> debt_status (st_row st') = SETTLED
           \<and> paid_total (st_row st') (st_payments st') = 15000"
    using r f(1) m se am t by (intro exI [of _ st'] exI [of _ new]) simp
  then show ?thesis
    using h1 h2 h3 h4 h5' by simp
qed

text \<open>
  A payment of 200.00 on the new debt of 150.00 is accepted: the settled amount is
  capped at 150.00 and the payment row records 200.00, so the settled amount is not the
  sum of the payment rows.
\<close>

theorem add_payments_overshoot_counterexample:
  "add_payments [(1, PyDecimal 200, [])] scenario_state =
     Returned
       \<lparr>st_object =
          from_db (scenario_debt\<lparr>debt_status := SETTLED, debt_settled_at := Some 1,
                                 debt_settled_amount := 15000\<rparr>),
        st_row = scenario_debt\<lparr>debt_status := SETTLED, debt_settled_at := Some 1,
                               debt_settled_amount := 15000\<rparr>,
        st_payments =
          [\<lparr>payment_debt = 4, payment_amount = 20000, payment_method = ''CASH'',
            payment_reference_number = [], payment_notes = [],
            payment_created_by = Some 2\<rparr>]\<rparr>
   \<and> debt_settled_amount
        (scenario_debt\<lparr>debt_status := SETTLED, debt_settled_at := Some 1,
                       debt_settled_amount := 15000\<rparr>) = 15000
   \<and> paid_total
        (scenario_debt\<lparr>debt_status := SETTLED, debt_settled_at := Some 1,
                       debt_settled_amount := 15000\<rparr>)
        [\<lparr>payment_debt = 4, payment_amount = 20000, payment_method = ''CASH'',
          payment_reference_number = [], payment_notes = [],
          payment_created_by = Some 2\<rparr>] = 20000"
  by code_simp


section \<open>Payments on a debt: a payment beyond the balance\<close>

text \<open>
  C3, as the code has it. \<open>add_payment\<close> never raises \<open>ValidationError\<close>, and it does
  not compare the payment with the remaining balance: a payable amount that reaches or
  exceeds the remaining balance of a loaded debt is accepted, the debt is settled with
  the settled amount capped at the amount of the debt, and the payment is recorded in
  full. After the debt of 150.00 has received 50.00 and then 100.00 it is settled, and a
  third payment of any payable amount is accepted as well: it appends a third payment
  row, stamps \<open>settled_at\<close> again and leaves the settled amount at 150.00 and the
  status at \<open>SETTLED\<close>.
\<close>

theorem add_payment_beyond_balance:
  "(loaded st \<and> payable amount
      \<and> debt_amount (st_row st) - debt_settled_amount (st_row st) \<le> amount_cents amount
    \<longrightarrow> add_payment now amount notes st =
          Returned
            \<lparr>st_object =
               from_db ((st_row st)\<lparr>debt_status := SETTLED, debt_settled_at := Some now,
                                     debt_settled_amount := debt_amount (st_row st)\<rparr>),
             st_row = (st_row st)\<lparr>debt_status := SETTLED, debt_settled_at := Some now,
                                    debt_settled_amount := debt_amount (st_row st)\<rparr>,
             st_payments =
               st_payments st @
                 [\<lparr>payment_debt = debt_id (st_row st),
                   payment_amount = amount_cents amount,
                   payment_method = ''CASH'',
                   payment_reference_number = [],
                   payment_notes = notes,
                   payment_created_by = Some (debt_debtor (st_row st))\<rparr>]\<rparr>)
   \<and> (payable amount
    \<longrightarrow> (\<exists>st2 st3.
            add_payments scenario_calls scenario_state = Returned st2
          \<and> debt_status (st_row st2) = SETTLED
          \<and> debt_settled_amount (st_row st2) = 15000
          \<and> length (st_payments st2) = 2
          \<and> add_payment now amount notes st2 = Returned st3
          \<and> debt_status (st_row st3) = SETTLED
          \<and> debt_settled_amount (st_row st3) = 15000
          \<and> debt_settled_at (st_row st3) = Some now
          \<and> st_payments st3 =
               st_payments st2 @
                 [\<lparr>payment_debt = 4,
                   payment_amount = amount_cents amount,
                   payment_method = ''CASH'',
                   payment_reference_number = [],
                   payment_notes = notes,
                   payment_created_by = Some 2\<rparr>]))
   \<and> add_payment now amount notes st \<noteq> Raised ValidationError st'"
proof (intro conjI impI)
  assume h: "loaded st \<and> payable amount
      \<and> debt_amount (st_row st) - debt_settled_amount (st_row st) \<le> amount_cents amount"
  then have "debt_amount (st_row st) \<le> debt_settled_amount (st_row st) + amount_cents amount"
    by simp
  then show "add_payment now amount notes st =
          Returned
            \<lparr>st_object =
               from_db ((st_row st)\<lparr>debt_status := SETTLED, debt_settled_at := Some now,
                                     debt_settled_amount := debt_amount (st_row st)\<rparr>),
             st_row = (st_row st)\<lparr>debt_status := SETTLED, debt_settled_at := Some now,
                                    debt_settled_amount := debt_amount (st_row st)\<rparr>,
             st_payments =
               st_payments st @
                 [\<lparr>payment_debt = debt_id (st_row st),
                   payment_amount = amount_cents amount,
                   payment_method = ''CASH'',
                   payment_reference_number = [],
                   payment_notes = notes,
                   payment_created_by = Some (debt_debtor (st_row st))\<rparr>]\<rparr>"
    using h add_payment_payable [of st amount now "notes"] by simp
next
  assume p: "payable amount"
  define st2 where "st2 =
     \<lparr>st_object = from_db (scenario_debt\<lparr>debt_status := SETTLED, debt_settled_at := Some 2,
                                          debt_settled_amount := 15000\<rparr>),
      st_row = scenario_debt\<lparr>debt_status := SETTLED, debt_settled_at := Some 2,
                              debt_settled_amount := 15000\<rparr>,
      st_payments =
        [\<lparr>payment_debt = 4, payment_amount = 5000, payment_method = ''CASH'',
          payment_reference_number = [], payment_notes = ''cash'',
          payment_created_by = Some 2\<rparr>,
         \<lparr>payment_debt = 4, payment_amount = 10000, payment_method = ''CASH'',
          payment_reference_number = [], payment_notes = ''bank'',
          payment_created_by = Some 2\<rparr>]\<rparr>"
  have two: "add_payments scenario_calls scenario_state = Returned st2"
    unfolding st2_def by code_simp
  have l2: "loaded st2"
    by (simp add: loaded_def st2_def scenario_debt_def)
  have c0: "0 < amount_cents amount" using payable_cents [OF p] by simp
  have three: "add_payment now amount notes st2 =
      Returned
        \<lparr>st_object = from_db (scenario_debt\<lparr>debt_status := SETTLED, debt_settled_at := Some now,
                                          debt_settled_amount := 15000\<rparr>),
         st_row = scenario_debt\<lparr>debt_status := SETTLED, debt_settled_at := Some now,
                              debt_settled_amount := 15000\<rparr>,
         st_payments =
           st_payments st2 @
             [\<lparr>payment_debt = 4,
               payment_amount = amount_cents amount,
               payment_method = ''CASH'',
               payment_reference_number = [],
               payment_notes = notes,
               payment_created_by = Some 2\<rparr>]\<rparr>"
    unfolding add_payment_payable [OF l2 p]
    using c0 by (simp add: st2_def scenario_debt_def)
  show "\<exists>st2 st3.
            add_payments scenario_calls scenario_state = Returned st2
          \<and> debt_status (st_row st2) = SETTLED
          \<and> debt_settled_amount (st_row st2) = 15000
          \<and> length (st_payments st2) = 2
          \<and> add_payment now amount notes st2 = Returned st3
          \<and> debt_status (st_row st3) = SETTLED
          \<and> debt_settled_amount (st_row st3) = 15000
          \<and> debt_settled_at (st_row st3) = Some now
          \<and> st_payments st3 =
               st_payments st2 @
                 [\<lparr>payment_debt = 4,
                   payment_amount = amount_cents amount,
                   payment_method = ''CASH'',
                   payment_reference_number = [],
                   payment_notes = notes,
                   payment_created_by = Some 2\<rparr>]"
    apply (rule exI [of _ st2])
    apply (simp only: two three)
    apply (simp add: st2_def)
    done
next
  show "add_payment now amount notes st \<noteq> Raised ValidationError st'"
    using add_payment_raises [of now amount "notes" st ValidationError "st'"] by auto
qed

theorem add_payment_beyond_balance_witness:
  "loaded scenario_state \<and> payable (PyDecimal 200)
   \<and> debt_amount (st_row scenario_state) - debt_settled_amount (st_row scenario_state)
       \<le> amount_cents (PyDecimal 200)
   \<and> add_payment 1 (PyDecimal 200) [] scenario_state =
          Returned
            \<lparr>st_object =
               from_db ((st_row scenario_state)\<lparr>debt_status := SETTLED,
                          debt_settled_at := Some 1,
                          debt_settled_amount := debt_amount (st_row scenario_state)\<rparr>),
             st_row = (st_row scenario_state)\<lparr>debt_status := SETTLED,
                          debt_settled_at := Some 1,
                          debt_settled_amount := debt_amount (st_row scenario_state)\<rparr>,
             st_payments =
               st_payments scenario_state @
                 [\<lparr>payment_debt = debt_id (st_row scenario_state),
                   payment_amount = amount_cents (PyDecimal 200),
                   payment_method = ''CASH'',
                   payment_reference_number = [],
                   payment_notes = [],
                   payment_created_by = Some (debt_debtor (st_row scenario_state))\<rparr>]\<rparr>
   \<and> payable (PyDecimal (1 / 100))
   \<and> (\<exists>st2 st3.
            add_payments scenario_calls scenario_state = Returned st2
          \<and> debt_status (st_row st2) = SETTLED
          \<and> debt_settled_amount (st_row st2) = 15000
          \<and> length (st_payments st2) = 2
          \<and> add_payment 3 (PyDecimal (1 / 100)) [] st2 = Returned st3
          \<and> debt_status (st_row st3) = SETTLED
          \<and> debt_settled_amount (st_row st3) = 15000
          \<and> debt_settled_at (st_row st3) = Some 3
          \<and> st_payments st3 =
               st_payments st2 @
                 [\<lparr>payment_debt = 4,
                   payment_amount = amount_cents (PyDecimal (1 / 100)),
                   payment_method = ''CASH'',
                   payment_reference_number = [],
                   payment_notes = [],
                   payment_created_by = Some 2\<rparr>])"
proof -
  have h1: "loaded scenario_state" by (rule scenario_state_loaded)
  have h2: "payable (PyDecimal 200)" and h4: "payable (PyDecimal (1 / 100))"
    by (rule scenario_more_amounts)+
  have h3: "debt_amount (st_row scenario_state) - debt_settled_amount (st_row scenario_state)
       \<le> amount_cents (PyDecimal 200)"
    by (simp add: scenario_more_amounts scenario_state_def scenario_debt_def)
  show ?thesis
    using h1 h2 h3 h4
      add_payment_beyond_balance [of scenario_state "PyDecimal 200" 1 "[]"]
      add_payment_beyond_balance [of scenario_state "PyDecimal (1 / 100)" 3 "[]"]
    by simp
qed

text \<open>
  The two payments settle the debt of 150.00, and a third payment of 0.01 returns with
  a third payment row.
\<close>

theorem add_payment_third_payment_counterexample:
  "add_payments scenario_calls scenario_state = Returned scenario_settled_state
   \<and> debt_status (st_row scenario_settled_state) = SETTLED
   \<and> add_payment 3 (PyDecimal (1 / 100)) [] scenario_settled_state =
       Returned
         \<lparr>st_object =
            from_db (scenario_debt\<lparr>debt_status := SETTLED, debt_settled_at := Some 3,
                                   debt_settled_amount := 15000\<rparr>),
          st_row = scenario_debt\<lparr>debt_status := SETTLED, debt_settled_at := Some 3,
                                 debt_settled_amount := 15000\<rparr>,
          st_payments =
            st_payments scenario_settled_state @
              [\<lparr>payment_debt = 4, payment_amount = 1, payment_method = ''CASH'',
                payment_reference_number = [], payment_notes = [],
                payment_created_by = Some 2\<rparr>]\<rparr>"
  by code_simp


section \<open>Payments on a cancelled debt\<close>

text \<open>
  C4, as the code has it. \<open>add_payment\<close> does not look at the status before it
  books a payment. On a loaded \<open>CANCELLED\<close> debt with nothing negative settled, a
  payment of any payable amount returns: the payment row is appended, the settled
  amount grows by the payment, capped at the amount of the debt, and the status
  \<open>CANCELLED\<close> is replaced by \<open>SETTLED\<close> when the amount is reached and by
  \<open>PARTIALLY_PAID\<close> otherwise.
\<close>

theorem add_payment_on_cancelled_debt:
  assumes "loaded st" and "debt_status (st_row st) = CANCELLED"
    and "0 \<le> debt_settled_amount (st_row st)" and "payable amount"
  shows "add_payment now amount notes st =
           Returned
             \<lparr>st_object =
                from_db
                  (if debt_amount (st_row st) \<le> debt_settled_amount (st_row st) + amount_cents amount
                   then (st_row st)\<lparr>debt_status := SETTLED, debt_settled_at := Some now,
                                     debt_settled_amount := debt_amount (st_row st)\<rparr>
                   else (st_row st)\<lparr>debt_settled_amount :=
                                       debt_settled_amount (st_row st) + amount_cents amount,
                                     debt_status := PARTIALLY_PAID\<rparr>),
              st_row =
                (if debt_amount (st_row st) \<le> debt_settled_amount (st_row st) + amount_cents amount
                   then (st_row st)\<lparr>debt_status := SETTLED, debt_settled_at := Some now,
                                     debt_settled_amount := debt_amount (st_row st)\<rparr>
                   else (st_row st)\<lparr>debt_settled_amount :=
                                       debt_settled_amount (st_row st) + amount_cents amount,
                                     debt_status := PARTIALLY_PAID\<rparr>),
              st_payments =
                st_payments st @
                  [\<lparr>payment_debt = debt_id (st_row st),
                    payment_amount = amount_cents amount,
                    payment_method = ''CASH'',
                    payment_reference_number = [],
                    payment_notes = notes,
                    payment_created_by = Some (debt_debtor (st_row st))\<rparr>]\<rparr>"
proof -
  have "0 < debt_settled_amount (st_row st) + amount_cents amount"
    using assms(3) payable_cents(2) [OF assms(4)] by linarith
  then show ?thesis
    unfolding add_payment_payable [OF assms(1,4)] by simp
qed

theorem add_payment_on_cancelled_debt_witness:
  "loaded scenario_cancelled_state
   \<and> debt_status (st_row scenario_cancelled_state) = CANCELLED
   \<and> 0 \<le> debt_settled_amount (st_row scenario_cancelled_state)
   \<and> payable (PyDecimal 30)
   \<and> add_payment 1 (PyDecimal 30) [] scenario_cancelled_state =
       Returned
         \<lparr>st_object =
            from_db (scenario_cancelled_debt\<lparr>debt_settled_amount := 3000,
                                              debt_status := PARTIALLY_PAID\<rparr>),
          st_row = scenario_cancelled_debt\<lparr>debt_settled_amount := 3000,
                                           debt_status := PARTIALLY_PAID\<rparr>,
          st_payments =
            [\<lparr>payment_debt = 4, payment_amount = 3000, payment_method = ''CASH'',
              payment_reference_number = [], payment_notes = [],
              payment_created_by = Some 2\<rparr>]\<rparr>"
proof -
  have h1: "loaded scenario_cancelled_state" by (rule scenario_state_loaded)
  have h2: "debt_status (st_row scenario_cancelled_state) = CANCELLED"
    and h3: "0 \<le> debt_settled_amount (st_row scenario_cancelled_state)"
    by (simp_all add: scenario_cancelled_state_def scenario_cancelled_debt_def scenario_debt_def)
  have h4: "payable (PyDecimal 30)" by (rule scenario_more_amounts)
  show ?thesis
    using h1 h2 h3 h4
      add_payment_on_cancelled_debt [OF h1 h2 h3 h4, of 1 "[]"]
    by (simp add: scenario_more_amounts scenario_cancelled_state_def
          scenario_cancelled_debt_def scenario_debt_def)
qed

text \<open>
  A payment of 30.00 on the cancelled debt of 150.00 returns: the debt is then partially
  paid with 30.00 settled.
\<close>

theorem add_payment_cancelled_counterexample:
  "debt_status (st_row scenario_cancelled_state) = CANCELLED
   \<and> add_payment 1 (PyDecimal 30) [] scenario_cancelled_state =
       Returned
         \<lparr>st_object =
            from_db (scenario_cancelled_debt\<lparr>debt_settled_amount := 3000,
                                              debt_status := PARTIALLY_PAID\<rparr>),
          st_row = scenario_cancelled_debt\<lparr>debt_settled_amount := 3000,
                                           debt_status := PARTIALLY_PAID\<rparr>,
          st_payments =
            [\<lparr>payment_debt = 4, payment_amount = 3000, payment_method = ''CASH'',
              payment_reference_number = [], payment_notes = [],
              payment_created_by = Some 2\<rparr>]\<rparr>"
  by code_simp


section \<open>Budget alerts: one evaluation past 100%\<close>

lemma scenario_utilization:
  "utilization_percentage scenario_expenses_before scenario_budget = 60"
  "utilization_percentage scenario_expenses_after scenario_budget = 124"
  by code_simp+

text \<open>
  C5, as the code has it. For every budget with both alert thresholds enabled and
  neither alerted flag set, a single evaluation at a utilization of at least 100%
  emits the \<open>EXCEEDED\<close> alert only: the 80% check asks for a utilization below 100, so
  no \<open>80_PERCENT\<close> alert is created and \<open>alerted_at_80\<close> stays false. The evaluation
  sets \<open>alerted_at_100\<close> and moves the status of the budget to \<open>EXCEEDED\<close>.
\<close>

theorem check_and_send_alerts_past_100:
  assumes "alert_threshold_80 b" and "alert_threshold_100 b"
    and "\<not> alerted_at_80 b" and "\<not> alerted_at_100 b"
    and "100 \<le> utilization_percentage expenses b"
  shows "check_and_send_alerts en expenses (b, alerts) =
           (b\<lparr>alerted_at_100 := True, budget_status := EXCEEDED\<rparr>,
            alerts @
              [\<lparr>alert_budget = budget_id b, alert_user = budget_user b,
                alert_type = ''EXCEEDED'',
                alert_message = ''Budget exceeded for '' @ budget_name b @ ''!'',
                alert_is_read = False,
                alert_sent_via_email = en (budget_user b)\<rparr>])"
  using assms
  by (simp add: check_and_send_alerts_def Let_def send_alert_100_def send_budget_alert_def)

theorem check_and_send_alerts_past_100_witness:
  "alert_threshold_80 scenario_budget \<and> alert_threshold_100 scenario_budget
   \<and> \<not> alerted_at_80 scenario_budget \<and> \<not> alerted_at_100 scenario_budget
   \<and> 100 \<le> utilization_percentage scenario_expenses_after scenario_budget
   \<and> check_and_send_alerts no_email scenario_expenses_after (scenario_budget, []) =
           (scenario_budget\<lparr>alerted_at_100 := True, budget_status := EXCEEDED\<rparr>,
            [] @
              [\<lparr>alert_budget = budget_id scenario_budget, alert_user = budget_user scenario_budget,
                alert_type = ''EXCEEDED'',
                alert_message = ''Budget exceeded for '' @ budget_name scenario_budget @ ''!'',
                alert_is_read = False,
                alert_sent_via_email = no_email (budget_user scenario_budget)\<rparr>])"
proof -
  have h1: "alert_threshold_80 scenario_budget" and h2: "alert_threshold_100 scenario_budget"
    and h3: "\<not> alerted_at_80 scenario_budget" and h4: "\<not> alerted_at_100 scenario_budget"
    by (simp_all add: scenario_budget_def)
  have h5: "100 \<le> utilization_percentage scenario_expenses_after scenario_budget"
    by (simp add: scenario_utilization)
  show ?thesis
    using h1 h2 h3 h4 h5
      check_and_send_alerts_past_100 [OF h1 h2 h3 h4 h5, of no_email "[]"]
    by simp
qed

text \<open>
  The budget of 500.00 with 300.00 spent (60%) and then 620.00 spent (124%): the
  evaluation after the jump creates one alert, of type \<open>EXCEEDED\<close>, and leaves
  \<open>alerted_at_80\<close> false.
\<close>

theorem check_and_send_alerts_jump_counterexample:
  "utilization_percentage scenario_expenses_before scenario_budget = 60
   \<and> utilization_percentage scenario_expenses_after scenario_budget = 124
   \<and> check_and_send_alerts no_email scenario_expenses_after (scenario_budget, []) =
       (scenario_budget\<lparr>alerted_at_100 := True, budget_status := EXCEEDED\<rparr>,
        [\<lparr>alert_budget = 1, alert_user = 1, alert_type = ''EXCEEDED'',
          alert_message = ''Budget exceeded for Food!'', alert_is_read = False,
          alert_sent_via_email = False\<rparr>])
   \<and> alerted_at_80 (scenario_budget\<lparr>alerted_at_100 := True, budget_status := EXCEEDED\<rparr>)
       = False"
  by code_simp


section \<open>Budget alerts: at most one alert for each threshold\<close>

lemma check_step_80:
  assumes "check_and_send_alerts en expenses (b, al) = (b', al')"
  shows "budget_id b' = budget_id b
     \<and> ((alerted_at_80 b' \<and>
          length (alerts_of_type ''80_PERCENT'' b al')
            \<le> length (alerts_of_type ''80_PERCENT'' b al) + (if alerted_at_80 b then 0 else 1))
         \<or> (\<not> alerted_at_80 b' \<and> \<not> alerted_at_80 b
             \<and> alerts_of_type ''80_PERCENT'' b al' = alerts_of_type ''80_PERCENT'' b al))
     \<and> (alerted_at_80 b \<longrightarrow>
           alerts_of_type ''80_PERCENT'' b al' = alerts_of_type ''80_PERCENT'' b al)"
  using assms
  by (auto simp: check_and_send_alerts_def Let_def send_alert_80_def send_alert_100_def
        send_budget_alert_def alerts_of_type_def split: if_splits)

lemma check_step_100:
  assumes "check_and_send_alerts en expenses (b, al) = (b', al')"
  shows "budget_id b' = budget_id b
     \<and> ((alerted_at_100 b' \<and>
          length (alerts_of_type ''EXCEEDED'' b al')
            \<le> length (alerts_of_type ''EXCEEDED'' b al) + (if alerted_at_100 b then 0 else 1))
         \<or> (\<not> alerted_at_100 b' \<and> \<not> alerted_at_100 b
             \<and> alerts_of_type ''EXCEEDED'' b al' = alerts_of_type ''EXCEEDED'' b al))
     \<and> (alerted_at_100 b \<longrightarrow>
           alerts_of_type ''EXCEEDED'' b al' = alerts_of_type ''EXCEEDED'' b al)"
  using assms
  by (auto simp: check_and_send_alerts_def Let_def send_alert_80_def send_alert_100_def
        send_budget_alert_def alerts_of_type_def split: if_splits)

lemma alerts_of_type_same_id:
  "budget_id b' = budget_id b \<Longrightarrow> alerts_of_type t b' al = alerts_of_type t b al"
  by (simp add: alerts_of_type_def)

lemma seq_80:
  "(alerted_at_80 b \<longrightarrow>
      alerted_at_80 (fst (check_and_send_alerts_seq en evals (b, al)))
      \<and> alerts_of_type ''80_PERCENT'' b (snd (check_and_send_alerts_seq en evals (b, al)))
          = alerts_of_type ''80_PERCENT'' b al)
   \<and> length (alerts_of_type ''80_PERCENT'' b (snd (check_and_send_alerts_seq en evals (b, al))))
       \<le> length (alerts_of_type ''80_PERCENT'' b al) + (if alerted_at_80 b then 0 else 1)"
proof (induction evals arbitrary: b al)
  case Nil
  show ?case by simp
next
  case (Cons e evals)
  obtain b1 al1 where r: "check_and_send_alerts en e (b, al) = (b1, al1)"
    by (cases "check_and_send_alerts en e (b, al)")
  note st = check_step_80 [OF r]
  have id: "budget_id b1 = budget_id b" using st by simp
  note ih = Cons.IH [of b1 al1, unfolded alerts_of_type_same_id [OF id]]
  have res: "check_and_send_alerts_seq en (e # evals) (b, al)
               = check_and_send_alerts_seq en evals (b1, al1)"
    using r by simp
  show ?case
  proof (cases "alerted_at_80 b")
    case True
    then have "alerted_at_80 b1"
      and "alerts_of_type ''80_PERCENT'' b al1 = alerts_of_type ''80_PERCENT'' b al"
      using st by auto
    then show ?thesis using ih True res by simp
  next
    case False
    show ?thesis
    proof (cases "alerted_at_80 b1")
      case True
      then have "length (alerts_of_type ''80_PERCENT'' b al1)
                   \<le> length (alerts_of_type ''80_PERCENT'' b al) + 1"
        using st False by auto
      then show ?thesis using ih True False res by simp
    next
      case b1: False
      then have "alerts_of_type ''80_PERCENT'' b al1 = alerts_of_type ''80_PERCENT'' b al"
        using st by auto
      then show ?thesis using ih b1 False res by simp
    qed
  qed
qed

lemma seq_100:
  "(alerted_at_100 b \<longrightarrow>
      alerted_at_100 (fst (check_and_send_alerts_seq en evals (b, al)))
      \<and> alerts_of_type ''EXCEEDED'' b (snd (check_and_send_alerts_seq en evals (b, al)))
          = alerts_of_type ''EXCEEDED'' b al)
   \<and> length (alerts_of_type ''EXCEEDED'' b (snd (check_and_send_alerts_seq en evals (b, al))))
       \<le> length (alerts_of_type ''EXCEEDED'' b al) + (if alerted_at_100 b then 0 else 1)"
proof (induction evals arbitrary: b al)
  case Nil
  show ?case by simp
next
  case (Cons e evals)
  obtain b1 al1 where r: "check_and_send_alerts en e (b, al) = (b1, al1)"
    by (cases "check_and_send_alerts en e (b, al)")
  note st = check_step_100 [OF r]
  have id: "budget_id b1 = budget_id b" using st by simp
  note ih = Cons.IH [of b1 al1, unfolded alerts_of_type_same_id [OF id]]
  have res: "check_and_send_alerts_seq en (e # evals) (b, al)
               = check_and_send_alerts_seq en evals (b1, al1)"
    using r by simp
  show ?case
  proof (cases "alerted_at_100 b")
    case True
    then have "alerted_at_100 b1"
      and "alerts_of_type ''EXCEEDED'' b al1 = alerts_of_type ''EXCEEDED'' b al"
      using st by auto
    then show ?thesis using ih True res by simp
  next
    case False
    show ?thesis
    proof (cases "alerted_at_100 b1")
      case True
      then have "length (alerts_of_type ''EXCEEDED'' b al1)
                   \<le> length (alerts_of_type ''EXCEEDED'' b al) + 1"
        using st False by auto
      then show ?thesis using ih True False res by simp
    next
      case b1: False
      then have "alerts_of_type ''EXCEEDED'' b al1 = alerts_of_type ''EXCEEDED'' b al"
        using st by auto
      then show ?thesis using ih b1 False res by simp
    qed
  qed
qed

text \<open>
  C6. Over every sequence of evaluations with no reset between them: an alerted flag
  that is set stays set, and no further alert of its type is created for the budget;
  the alerts of each type grow by at most one over the whole sequence. \<open>reset_alerts\<close>
  clears both flags and leaves the status as it is.
\<close>

theorem alerts_at_most_once_per_threshold:
  "(alerted_at_80 b \<longrightarrow>
      alerted_at_80 (fst (check_and_send_alerts_seq en evals (b, al)))
      \<and> alerts_of_type ''80_PERCENT'' b (snd (check_and_send_alerts_seq en evals (b, al)))
          = alerts_of_type ''80_PERCENT'' b al)
   \<and> (alerted_at_100 b \<longrightarrow>
      alerted_at_100 (fst (check_and_send_alerts_seq en evals (b, al)))
      \<and> alerts_of_type ''EXCEEDED'' b (snd (check_and_send_alerts_seq en evals (b, al)))
          = alerts_of_type ''EXCEEDED'' b al)
   \<and> length (alerts_of_type ''80_PERCENT'' b (snd (check_and_send_alerts_seq en evals (b, al))))
       \<le> Suc (length (alerts_of_type ''80_PERCENT'' b al))
   \<and> length (alerts_of_type ''EXCEEDED'' b (snd (check_and_send_alerts_seq en evals (b, al))))
       \<le> Suc (length (alerts_of_type ''EXCEEDED'' b al))
   \<and> \<not> alerted_at_80 (reset_alerts b) \<and> \<not> alerted_at_100 (reset_alerts b)
   \<and> budget_status (reset_alerts b) = budget_status b"
proof -
  have "length (alerts_of_type ''80_PERCENT'' b (snd (check_and_send_alerts_seq en evals (b, al))))
       \<le> Suc (length (alerts_of_type ''80_PERCENT'' b al))"
    using seq_80 [of b en evals al] by (simp split: if_splits)
  moreover have "length (alerts_of_type ''EXCEEDED'' b (snd (check_and_send_alerts_seq en evals (b, al))))
       \<le> Suc (length (alerts_of_type ''EXCEEDED'' b al))"
    using seq_100 [of b en evals al] by (simp split: if_splits)
  ultimately show ?thesis
    using seq_80 [of b en evals al] seq_100 [of b en evals al]
    by (simp add: reset_alerts_def)
qed

theorem alerts_at_most_once_per_threshold_witness:
  "alerted_at_80 scenario_alerted_budget \<and> alerted_at_100 scenario_alerted_budget
   \<and> alerted_at_80 (fst (check_and_send_alerts_seq no_email
         [scenario_expenses_before, scenario_expenses_after] (scenario_alerted_budget, [])))
   \<and> alerted_at_100 (fst (check_and_send_alerts_seq no_email
         [scenario_expenses_before, scenario_expenses_after] (scenario_alerted_budget, [])))
   \<and> alerts_of_type ''80_PERCENT'' scenario_alerted_budget
         (snd (check_and_send_alerts_seq no_email
           [scenario_expenses_before, scenario_expenses_after] (scenario_alerted_budget, [])))
       = alerts_of_type ''80_PERCENT'' scenario_alerted_budget []
   \<and> alerts_of_type ''EXCEEDED'' scenario_alerted_budget
         (snd (check_and_send_alerts_seq no_email
           [scenario_expenses_before, scenario_expenses_after] (scenario_alerted_budget, [])))
       = alerts_of_type ''EXCEEDED'' scenario_alerted_budget []
   \<and> length (alerts_of_type ''EXCEEDED'' scenario_budget
         (snd (check_and_send_alerts_seq no_email
           [scenario_expenses_before, scenario_expenses_after, scenario_expenses_after]
           (scenario_budget, []))))
       \<le> Suc (length (alerts_of_type ''EXCEEDED'' scenario_budget []))"
proof -
  have h1: "alerted_at_80 scenario_alerted_budget" and h2: "alerted_at_100 scenario_alerted_budget"
    by (simp_all add: scenario_alerted_budget_def)
  show ?thesis
    using h1 h2
      alerts_at_most_once_per_threshold [of scenario_alerted_budget no_email
        "[scenario_expenses_before, scenario_expenses_after]" "[]"]
      alerts_at_most_once_per_threshold [of scenario_budget no_email
        "[scenario_expenses_before, scenario_expenses_after, scenario_expenses_after]" "[]"]
    by (simp del: check_and_send_alerts_seq.simps)
qed


section \<open>Creating a shared expense: what is checked\<close>

text \<open>
  C8, as the code has it. Creating a shared expense checks neither that the payer is a
  member of the group nor that the expense is not shared yet: the reference to the
  expense is a plain many-to-one foreign key. When the expense, the group and the payer
  exist and the split method is one of the four choices (or is left out), the creation
  succeeds and adds one row, so the number of shared expenses that reference the
  expense grows by one with every creation.
\<close>

theorem shared_expense_create_unchecked:
  assumes "find (\<lambda>e. expense_id e = data_expense data) expenses = Some e"
    and "find (\<lambda>g. group_id g = data_group data) groups = Some g"
    and "data_paid_by data \<in> set users"
    and "(case data_split_method data of None \<Rightarrow> Some EQUAL
          | Some s \<Rightarrow> split_method_choice s) = Some m"
  shows "\<exists>row. SharedExpenseSerializer_create expenses groups users data (table, pk)
                 = Inr (table @ [row], Suc pk)
           \<and> se_expense row = e \<and> se_group row = g \<and> se_paid_by row = data_paid_by data
           \<and> length (shared_info (data_expense data) (table @ [row]))
               = Suc (length (shared_info (data_expense data) table))"
proof -
  have "expense_id e = data_expense data"
    using assms(1) by (auto simp: find_Some_iff)
  then show ?thesis
    using assms by (simp add: SharedExpenseSerializer_create_def shared_info_def)
qed

theorem shared_expense_create_unchecked_witness:
  "find (\<lambda>e. expense_id e = data_expense scenario_data) [scenario_expense] = Some scenario_expense
   \<and> find (\<lambda>g. group_id g = data_group scenario_data) [scenario_group] = Some scenario_group
   \<and> data_paid_by scenario_data \<in> set [1, 2, 3, 9]
   \<and> (case data_split_method scenario_data of None \<Rightarrow> Some EQUAL
          | Some s \<Rightarrow> split_method_choice s) = Some EQUAL
   \<and> (\<exists>row. SharedExpenseSerializer_create [scenario_expense] [scenario_group] [1, 2, 3, 9]
                  scenario_data ([scenario_shared_expense], 2)
                 = Inr ([scenario_shared_expense] @ [row], Suc 2)
           \<and> se_expense row = scenario_expense \<and> se_group row = scenario_group
           \<and> se_paid_by row = data_paid_by scenario_data
           \<and> length (shared_info (data_expense scenario_data) ([scenario_shared_expense] @ [row]))
               = Suc (length (shared_info (data_expense scenario_data) [scenario_shared_expense])))"
proof -
  have h1: "find (\<lambda>e. expense_id e = data_expense scenario_data) [scenario_expense]
              = Some scenario_expense"
    by (simp add: scenario_data_def scenario_expense_def)
  have h2: "find (\<lambda>g. group_id g = data_group scenario_data) [scenario_group]
              = Some scenario_group"
    by (simp add: scenario_data_def scenario_group_def)
  have h3: "data_paid_by scenario_data \<in> set [1, 2, 3, 9]"
    by (simp add: scenario_data_def)
  have h4: "(case data_split_method scenario_data of None \<Rightarrow> Some EQUAL
          | Some s \<Rightarrow> split_method_choice s) = Some EQUAL"
    by (simp add: scenario_data_def)
  show ?thesis
    using h1 h2 h3 h4
      shared_expense_create_unchecked [OF h1 h2 h3 h4, of "[scenario_shared_expense]" 2]
    by blast
qed

text \<open>
  The expense is shared already, and user 9 is not a member of the group: the creation
  returns a second shared expense for the same expense, paid by user 9.
\<close>

theorem shared_expense_create_counterexample:
  "data_paid_by scenario_data \<notin> set (group_members scenario_group)
   \<and> shared_info 1 [scenario_shared_expense] = [scenario_shared_expense]
   \<and> SharedExpenseSerializer_create [scenario_expense] [scenario_group] [1, 2, 3, 9]
        scenario_data ([scenario_shared_expense], 2)
      = Inr ([scenario_shared_expense,
              \<lparr>se_id = 2, se_expense = scenario_expense, se_group = scenario_group,
               se_paid_by = 9, se_split_method = EQUAL, se_notes = [],
               se_is_deleted = False\<rparr>], 3)
   \<and> length (shared_info 1
        [scenario_shared_expense,
         \<lparr>se_id = 2, se_expense = scenario_expense, se_group = scenario_group,
          se_paid_by = 9, se_split_method = EQUAL, se_notes = [],
          se_is_deleted = False\<rparr>]) = 2"
  by (simp add: SharedExpenseSerializer_create_def shared_info_def scenario_data_def
        scenario_group_def scenario_expense_def scenario_shared_expense_def)


section \<open>Balance summary of a group: the sum over a property\<close>

text \<open>
  For a group with at least one member the first aggregate of the loop raises
  \<open>FieldError\<close>: it sums \<open>amount\<close> over shared expenses, which have no such field.
\<close>

lemma get_balance_summary_raises:
  "group_members g \<noteq> [] \<Longrightarrow> get_balance_summary g table split_table = Inl FieldError"
  by (cases "group_members g")
     (simp_all add: get_balance_summary_def aggregate_Sum_def SharedExpense_decimal_fields_def)

text \<open>
  C9. The summary of the scenario group, with its one shared expense of 100.00 and one
  split, is not computed: the call raises \<open>FieldError\<close>. \<open>total_expenses\<close> of the
  same group, which reads the property in Python, is 100.00.
\<close>

theorem get_balance_summary_field_error:
  "get_balance_summary scenario_group [scenario_shared_expense] [scenario_split]
     = Inl FieldError
   \<and> total_expenses scenario_group [scenario_shared_expense] = 10000"
  by (simp add: get_balance_summary_raises total_expenses_def se_amount_def
        scenario_group_def scenario_shared_expense_def scenario_expense_def)


section \<open>The handler that derives a debt from a split\<close>

lemma handler_skip:
  "\<not> created \<or> split_is_settled s \<or> split_user s = se_paid_by (split_shared_expense s)
   \<Longrightarrow> create_debt_on_split s created l = Inr l"
  by (auto simp: create_debt_on_split_def)

lemma handler_new:
  assumes "created" and "\<not> split_is_settled s"
    and "split_user s \<noteq> se_paid_by (split_shared_expense s)"
    and "matching_debts (se_paid_by (split_shared_expense s)) (split_user s) s (debts l) = []"
  shows "create_debt_on_split s created l =
           Inr (l\<lparr>debts := debts l @
                  [\<lparr>debt_id = next_pk l,
                    debt_creditor = se_paid_by (split_shared_expense s),
                    debt_debtor = split_user s,
                    debt_amount = split_amount s,
                    debt_description =
                      ''Split for: '' @ expense_description (se_expense (split_shared_expense s)),
                    debt_group = Some (group_id (se_group (split_shared_expense s))),
                    debt_shared_expense_split = Some (split_id s),
                    debt_status = PENDING,
                    debt_due_date = None,
                    debt_settled_amount = 0,
                    debt_settled_at = None,
                    debt_created_by = Some (se_paid_by (split_shared_expense s)),
                    debt_is_deleted = False\<rparr>],
                next_pk := Suc (next_pk l)\<rparr>)"
  using assms by (simp add: create_debt_on_split_def Debt_get_or_create_def)

lemma handler_idempotent:
  assumes "create_debt_on_split s created l = Inr l'"
  shows "create_debt_on_split s created l' = Inr l'
         \<and> length (matching_debts (se_paid_by (split_shared_expense s)) (split_user s) s (debts l'))
             \<le> (if created \<and> \<not> split_is_settled s
                     \<and> split_user s \<noteq> se_paid_by (split_shared_expense s) then 1
                 else length (matching_debts (se_paid_by (split_shared_expense s)) (split_user s) s (debts l)))"
  using assms
  by (auto simp: create_debt_on_split_def Debt_get_or_create_def matching_debts_def
        split: if_splits list.splits)


section \<open>Creating the splits of a shared expense\<close>

text \<open>
  One created split: the row gets the next key, the given user and the quantized
  amount, and the handler adds a debt for it unless the user is the payer.
\<close>

lemma fresh_no_match:
  assumes "keys_fresh l" and "split_id inst = next_pk l"
  shows "matching_debts c u inst (debts l @ []) = []"
  using assms
  by (auto simp: keys_fresh_def matching_debts_def list_all_iff filter_empty_conv)

lemma objects_create_result:
  assumes nc: "\<not> (\<exists>s \<in> set (splits l). se_id (split_shared_expense s) = se_id se \<and> split_user s = m)"
    and fr: "keys_fresh l"
  shows "\<exists>inst newd.
           SharedExpenseSplit_objects_create se m a l =
             Inr (l\<lparr>splits := splits l @ [inst], debts := debts l @ newd,
                    next_pk := next_pk l + Suc (length newd)\<rparr>)
         \<and> split_id inst = next_pk l \<and> split_shared_expense inst = se
         \<and> split_user inst = m \<and> split_amount inst = quantize2 a
         \<and> \<not> split_is_settled inst \<and> split_settled_at inst = None
         \<and> map debt_debtor newd = filter (\<lambda>u. u \<noteq> se_paid_by se) [m]
         \<and> list_all (\<lambda>d. debt_creditor d = se_paid_by se \<and> debt_amount d = quantize2 a
                           \<and> debt_shared_expense_split d = Some (next_pk l)
                           \<and> debt_status d = PENDING \<and> debt_settled_amount d = 0) newd"
proof -
  define inst where "inst =
     \<lparr>split_id = next_pk l, split_shared_expense = se, split_user = m,
      split_amount = quantize2 a, split_percentage = None, split_is_settled = False,
      split_settled_at = None, split_settlement_notes = []\<rparr>"
  define l1 where "l1 = l\<lparr>splits := splits l @ [inst], next_pk := Suc (next_pk l)\<rparr>"
  have c: "SharedExpenseSplit_objects_create se m a l = create_debt_on_split inst True l1"
    using nc unfolding SharedExpenseSplit_objects_create_def inst_def l1_def
    by (auto simp: Let_def)
  have flds: "split_id inst = next_pk l" "split_shared_expense inst = se"
    "split_user inst = m" "split_amount inst = quantize2 a"
    "\<not> split_is_settled inst" "split_settled_at inst = None"
    by (simp_all add: inst_def)
  show ?thesis
  proof (cases "m = se_paid_by se")
    case True
    then have "create_debt_on_split inst True l1 = Inr l1"
      using flds by (simp add: handler_skip)
    then have "SharedExpenseSplit_objects_create se m a l =
             Inr (l\<lparr>splits := splits l @ [inst], debts := debts l @ [],
                    next_pk := next_pk l + Suc (length ([] :: debt list))\<rparr>)"
      using c by (simp add: l1_def)
    then show ?thesis using flds True by (intro exI [of _ inst] exI [of _ "[]"]) simp
  next
    case False
    have nm: "matching_debts (se_paid_by (split_shared_expense inst)) (split_user inst) inst (debts l1) = []"
      using fresh_no_match [OF fr flds(1)] by (simp add: l1_def)
    define d where "d =
       \<lparr>debt_id = next_pk l1,
        debt_creditor = se_paid_by se,
        debt_debtor = m,
        debt_amount = quantize2 a,
        debt_description = ''Split for: '' @ expense_description (se_expense se),
        debt_group = Some (group_id (se_group se)),
        debt_shared_expense_split = Some (next_pk l),
        debt_status = PENDING,
        debt_due_date = None,
        debt_settled_amount = 0,
        debt_settled_at = None,
        debt_created_by = Some (se_paid_by se),
        debt_is_deleted = False\<rparr>"
    have "create_debt_on_split inst True l1 =
            Inr (l1\<lparr>debts := debts l1 @ [d], next_pk := Suc (next_pk l1)\<rparr>)"
      using handler_new [of True inst l1] nm False flds by (simp add: d_def)
    then have "SharedExpenseSplit_objects_create se m a l =
             Inr (l\<lparr>splits := splits l @ [inst], debts := debts l @ [d],
                    next_pk := next_pk l + Suc (length [d])\<rparr>)"
      using c by (simp add: l1_def)
    then show ?thesis
      using flds False by (intro exI [of _ inst] exI [of _ "[d]"]) (simp add: d_def)
  qed
qed


lemma create_splits_loop_result:
  assumes "distinct ms"
    and "\<forall>s \<in> set (splits l). se_id (split_shared_expense s) = se_id se \<longrightarrow> split_user s \<notin> set ms"
    and "keys_fresh l"
  shows "\<exists>new newd l'.
           create_splits_loop se a ms l = Inr l'
         \<and> splits l' = splits l @ new \<and> debts l' = debts l @ newd
         \<and> keys_fresh l'
         \<and> map split_user new = ms
         \<and> list_all (\<lambda>s. split_amount s = quantize2 a \<and> split_shared_expense s = se
                           \<and> \<not> split_is_settled s) new
         \<and> map debt_debtor newd = filter (\<lambda>u. u \<noteq> se_paid_by se) ms
         \<and> list_all (\<lambda>d. debt_creditor d = se_paid_by se \<and> debt_amount d = quantize2 a
                           \<and> debt_status d = PENDING \<and> debt_settled_amount d = 0) newd
         \<and> map debt_shared_expense_split newd
             = map (\<lambda>s. Some (split_id s)) (filter (\<lambda>s. split_user s \<noteq> se_paid_by se) new)"
  using assms
proof (induction ms arbitrary: l)
  case Nil
  show ?case using Nil.prems(3) by simp
next
  case (Cons m ms)
  have nc: "\<not> (\<exists>s \<in> set (splits l). se_id (split_shared_expense s) = se_id se \<and> split_user s = m)"
    using Cons.prems(2) by auto
  obtain inst nd where
    r: "SharedExpenseSplit_objects_create se m a l =
          Inr (l\<lparr>splits := splits l @ [inst], debts := debts l @ nd,
                 next_pk := next_pk l + Suc (length nd)\<rparr>)"
    and i: "split_id inst = next_pk l" "split_shared_expense inst = se"
      "split_user inst = m" "split_amount inst = quantize2 a" "\<not> split_is_settled inst"
    and d1: "map debt_debtor nd = filter (\<lambda>u. u \<noteq> se_paid_by se) [m]"
    and d2: "list_all (\<lambda>d. debt_creditor d = se_paid_by se \<and> debt_amount d = quantize2 a
                           \<and> debt_shared_expense_split d = Some (next_pk l)
                           \<and> debt_status d = PENDING \<and> debt_settled_amount d = 0) nd"
    using objects_create_result [OF nc Cons.prems(3), of a] by blast
  define l1 where "l1 = l\<lparr>splits := splits l @ [inst], debts := debts l @ nd,
                 next_pk := next_pk l + Suc (length nd)\<rparr>"
  have fr1: "keys_fresh l1"
    using Cons.prems(3) d2
    by (auto simp: keys_fresh_def l1_def list_all_iff split: option.splits)
  have dist: "distinct ms" and notin: "m \<notin> set ms" using Cons.prems(1) by simp_all
  have nc1: "\<forall>s \<in> set (splits l1). se_id (split_shared_expense s) = se_id se
               \<longrightarrow> split_user s \<notin> set ms"
    using Cons.prems(2) notin i by (auto simp: l1_def)
  obtain new newd l' where
    ih: "create_splits_loop se a ms l1 = Inr l'"
      "splits l' = splits l1 @ new" "debts l' = debts l1 @ newd" "keys_fresh l'"
      "map split_user new = ms"
      "list_all (\<lambda>s. split_amount s = quantize2 a \<and> split_shared_expense s = se
                           \<and> \<not> split_is_settled s) new"
      "map debt_debtor newd = filter (\<lambda>u. u \<noteq> se_paid_by se) ms"
      "list_all (\<lambda>d. debt_creditor d = se_paid_by se \<and> debt_amount d = quantize2 a
                           \<and> debt_status d = PENDING \<and> debt_settled_amount d = 0) newd"
      "map debt_shared_expense_split newd
             = map (\<lambda>s. Some (split_id s)) (filter (\<lambda>s. split_user s \<noteq> se_paid_by se) new)"
    using Cons.IH [OF dist nc1 fr1] by blast
  have loop: "create_splits_loop se a (m # ms) l = Inr l'"
    using r ih(1) by (simp add: l1_def)
  have nd_refs: "map debt_shared_expense_split nd
                   = map (\<lambda>s. Some (split_id s)) (filter (\<lambda>s. split_user s \<noteq> se_paid_by se) [inst])"
  proof (cases "m = se_paid_by se")
    case True
    then show ?thesis using d1 i by simp
  next
    case False
    then obtain d where "nd = [d]" using d1 by (cases nd) auto
    then show ?thesis using d2 i False by simp
  qed
  show ?case
  proof (intro exI [of _ "inst # new"] exI [of _ "nd @ newd"] exI [of _ l'] conjI)
    show "create_splits_loop se a (m # ms) l = Inr l'" by (rule loop)
    show "splits l' = splits l @ inst # new" using ih(2) by (simp add: l1_def)
    show "debts l' = debts l @ nd @ newd" using ih(3) by (simp add: l1_def)
    show "keys_fresh l'" by (rule ih(4))
    show "map split_user (inst # new) = m # ms" using ih(5) i by simp
    show "list_all (\<lambda>s. split_amount s = quantize2 a \<and> split_shared_expense s = se
                           \<and> \<not> split_is_settled s) (inst # new)"
      using ih(6) i by simp
    show "map debt_debtor (nd @ newd) = filter (\<lambda>u. u \<noteq> se_paid_by se) (m # ms)"
      using ih(7) d1 by simp
    show "list_all (\<lambda>d. debt_creditor d = se_paid_by se \<and> debt_amount d = quantize2 a
                           \<and> debt_status d = PENDING \<and> debt_settled_amount d = 0) (nd @ newd)"
      using ih(8) d2 by (auto simp: list_all_iff)
    show "map debt_shared_expense_split (nd @ newd)
             = map (\<lambda>s. Some (split_id s))
                 (filter (\<lambda>s. split_user s \<noteq> se_paid_by se) (inst # new))"
      using ih(9) nd_refs by simp
  qed
qed

lemma scenario_share:
  "quantize2 (dec_div (dec_of_money (expense_amount (se_expense scenario_shared_expense)))
                      (of_nat (length [1::user, 2, 3]))) = 3333"
  by code_simp

lemma map_constant:
  "list_all (\<lambda>x. f x = c) xs \<Longrightarrow> map f xs = replicate (length xs) c"
  by (induction xs) simp_all

text \<open>
  C1, as the code has it. For an equal split among a non-empty list of distinct
  participants, none of whom has a split of this shared expense yet,
  \<open>create_equal_splits\<close> creates one split for each participant, in the order of the
  list, and every split has the same amount: the amount of the expense divided by the
  number of participants, rounded half to even to two decimal places when it is stored.
  No remainder is given to any participant, so the amounts sum to the number of
  participants times that share, which is the amount of the expense only when the
  rounding changes nothing.
\<close>

theorem create_equal_splits_amounts:
  assumes "members = (case members_arg of None \<Rightarrow> group_members (se_group self)
                      | Some ms \<Rightarrow> ms)"
    and "members \<noteq> []" and "distinct members"
    and "\<forall>s \<in> set (splits l). se_id (split_shared_expense s) = se_id self
           \<longrightarrow> split_user s \<notin> set members"
    and "keys_fresh l"
    and "share = quantize2 (dec_div (dec_of_money (expense_amount (se_expense self)))
                                   (of_nat (length members)))"
  shows "\<exists>new l'. create_equal_splits self members_arg l = Inr l'
           \<and> splits l' = splits l @ new
           \<and> map split_user new = members
           \<and> map split_amount new = replicate (length members) share
           \<and> sum_list (map split_amount new) = int (length members) * share"
proof -
  define a where "a = dec_div (dec_of_money (expense_amount (se_expense self)))
                              (of_nat (length members))"
  obtain new l' where
    r: "create_splits_loop self a members l = Inr l'" "splits l' = splits l @ new"
      "map split_user new = members"
      "list_all (\<lambda>s. split_amount s = quantize2 a \<and> split_shared_expense s = self
                           \<and> \<not> split_is_settled s) new"
    using create_splits_loop_result [OF assms(3,4,5), of a] by blast
  have len: "length new = length members"
    using r(3) by (metis length_map)
  have "list_all (\<lambda>s. split_amount s = share) new"
    using r(4) assms(6) by (simp add: list_all_iff a_def)
  then have amounts: "map split_amount new = replicate (length members) share"
    using map_constant [of split_amount share new] len by simp
  have "create_equal_splits self members_arg l = Inr l'"
    using r(1) assms(1,2) by (simp add: create_equal_splits_def Let_def a_def)
  then show ?thesis
    using r(2,3) amounts by (simp add: sum_list_replicate)
qed

theorem create_equal_splits_amounts_witness:
  "[1, 2, 3] = (case None of None \<Rightarrow> group_members (se_group scenario_shared_expense)
                | Some ms \<Rightarrow> ms)
   \<and> [1::user, 2, 3] \<noteq> [] \<and> distinct [1::user, 2, 3]
   \<and> splits empty_ledger = [] \<and> keys_fresh empty_ledger
   \<and> (\<exists>new l'. create_equal_splits scenario_shared_expense None empty_ledger = Inr l'
           \<and> splits l' = splits empty_ledger @ new
           \<and> map split_user new = [1, 2, 3]
           \<and> map split_amount new = replicate (length [1::user, 2, 3]) 3333
           \<and> sum_list (map split_amount new) = int (length [1::user, 2, 3]) * 3333)"
proof -
  have h1: "[1, 2, 3] = (case None of None \<Rightarrow> group_members (se_group scenario_shared_expense)
                | Some ms \<Rightarrow> ms)"
    by (simp add: scenario_shared_expense_def scenario_group_def)
  have h2: "[1::user, 2, 3] \<noteq> []" and h3: "distinct [1::user, 2, 3]" by simp_all
  have e: "splits empty_ledger = []" by (simp add: empty_ledger_def)
  have h4: "\<forall>s \<in> set (splits empty_ledger).
              se_id (split_shared_expense s) = se_id scenario_shared_expense
                \<longrightarrow> split_user s \<notin> set [1, 2, 3]"
    by (simp add: e)
  have h5: "keys_fresh empty_ledger" by (simp add: keys_fresh_def empty_ledger_def)
  have h6: "3333 = quantize2 (dec_div (dec_of_money (expense_amount (se_expense scenario_shared_expense)))
                                   (of_nat (length [1::user, 2, 3])))"
    by (simp only: scenario_share)
  show ?thesis
    using h1 h2 h3 e h5 create_equal_splits_amounts [OF h1 h2 h3 h4 h5 h6] by blast
qed

text \<open>
  100.00 among the three members of the group: the amounts are 33.33, 33.33 and 33.33,
  which sum to 99.99.
\<close>

theorem create_equal_splits_remainder_counterexample:
  "\<not> isl (create_equal_splits scenario_shared_expense None empty_ledger)
   \<and> map split_user
        (splits (projr (create_equal_splits scenario_shared_expense None empty_ledger)))
       = [1, 2, 3]
   \<and> map split_amount
        (splits (projr (create_equal_splits scenario_shared_expense None empty_ledger)))
       = [3333, 3333, 3333]
   \<and> sum_list (map split_amount
        (splits (projr (create_equal_splits scenario_shared_expense None empty_ledger))))
       = 9999
   \<and> expense_amount (se_expense scenario_shared_expense) = 10000"
  by code_simp


section \<open>The debts of the splits\<close>

text \<open>
  The debts that \<open>create_equal_splits\<close> leaves behind, through the handler that runs
  at every created split: one for each participant other than the payer, in the order
  of the participants, owed to the payer, for the amount of the participant's split
  and referring to that split.
\<close>

lemma create_equal_splits_debts:
  assumes "members = (case members_arg of None \<Rightarrow> group_members (se_group self)
                      | Some ms \<Rightarrow> ms)"
    and "distinct members"
    and "\<forall>s \<in> set (splits l). se_id (split_shared_expense s) = se_id self
           \<longrightarrow> split_user s \<notin> set members"
    and "keys_fresh l"
  shows "\<exists>new newd l'. create_equal_splits self members_arg l = Inr l'
           \<and> splits l' = splits l @ new \<and> debts l' = debts l @ newd
           \<and> map split_user new = members
           \<and> map debt_debtor newd = filter (\<lambda>u. u \<noteq> se_paid_by self) members
           \<and> list_all (\<lambda>d. debt_creditor d = se_paid_by self) newd
           \<and> map debt_shared_expense_split newd
               = map (\<lambda>s. Some (split_id s))
                   (filter (\<lambda>s. split_user s \<noteq> se_paid_by self) new)
           \<and> map debt_amount newd
               = map split_amount (filter (\<lambda>s. split_user s \<noteq> se_paid_by self) new)"
proof (cases "members = []")
  case True
  then have "create_equal_splits self members_arg l = Inr l"
    using assms(1) by (simp add: create_equal_splits_def Let_def)
  then show ?thesis
    using True by (intro exI [of _ "[]"] exI [of _ l]) simp
next
  case False
  define a where "a = dec_div (dec_of_money (expense_amount (se_expense self)))
                              (of_nat (length members))"
  obtain new newd l' where
    r: "create_splits_loop self a members l = Inr l'"
      "splits l' = splits l @ new" "debts l' = debts l @ newd"
      "map split_user new = members"
      "list_all (\<lambda>s. split_amount s = quantize2 a \<and> split_shared_expense s = self
                           \<and> \<not> split_is_settled s) new"
      "map debt_debtor newd = filter (\<lambda>u. u \<noteq> se_paid_by self) members"
      "list_all (\<lambda>d. debt_creditor d = se_paid_by self \<and> debt_amount d = quantize2 a
                           \<and> debt_status d = PENDING \<and> debt_settled_amount d = 0) newd"
      "map debt_shared_expense_split newd
             = map (\<lambda>s. Some (split_id s)) (filter (\<lambda>s. split_user s \<noteq> se_paid_by self) new)"
    using create_splits_loop_result [OF assms(2,3,4), of a] by blast
  have c: "create_equal_splits self members_arg l = Inr l'"
    using r(1) assms(1) False by (simp add: create_equal_splits_def Let_def a_def)
  have cred: "list_all (\<lambda>d. debt_creditor d = se_paid_by self) newd"
    using r(7) by (simp add: list_all_iff)
  have "list_all (\<lambda>d. debt_amount d = quantize2 a) newd"
    using r(7) by (simp add: list_all_iff)
  then have da: "map debt_amount newd = replicate (length newd) (quantize2 a)"
    by (rule map_constant)
  have "list_all (\<lambda>s. split_amount s = quantize2 a)
          (filter (\<lambda>s. split_user s \<noteq> se_paid_by self) new)"
    using r(5) by (simp add: list_all_iff)
  then have sa: "map split_amount (filter (\<lambda>s. split_user s \<noteq> se_paid_by self) new)
                  = replicate (length (filter (\<lambda>s. split_user s \<noteq> se_paid_by self) new))
                      (quantize2 a)"
    by (rule map_constant)
  have "length newd = length (filter (\<lambda>s. split_user s \<noteq> se_paid_by self) new)"
    using r(8) by (metis length_map)
  then have amt: "map debt_amount newd
               = map split_amount (filter (\<lambda>s. split_user s \<noteq> se_paid_by self) new)"
    using da sa by simp
  show ?thesis
    using c r(2,3,4,6,8) cred amt by blast
qed

text \<open>
  C7, as the code has it. The handler derives a debt from a split that has just been
  created, is not settled and belongs to a user other than the payer: when no debt with
  the same creditor, debtor and split exists, exactly one is added, owed by the user of
  the split to the payer, for the amount of the split. No debt is derived for the
  split of the payer, for a split that is created settled, or when a split is saved
  again. Running the handler a second time on the same split changes nothing, so no debt
  is duplicated.
\<close>

theorem create_debt_on_split_derivation:
  "(created \<and> \<not> split_is_settled s
      \<and> split_user s \<noteq> se_paid_by (split_shared_expense s)
      \<and> matching_debts (se_paid_by (split_shared_expense s)) (split_user s) s (debts l) = []
    \<longrightarrow> (\<exists>d. create_debt_on_split s created l
                  = Inr (l\<lparr>debts := debts l @ [d], next_pk := Suc (next_pk l)\<rparr>)
             \<and> debt_creditor d = se_paid_by (split_shared_expense s)
             \<and> debt_debtor d = split_user s
             \<and> debt_amount d = split_amount s
             \<and> debt_shared_expense_split d = Some (split_id s)
             \<and> debt_status d = PENDING \<and> debt_settled_amount d = 0
             \<and> matching_debts (se_paid_by (split_shared_expense s)) (split_user s) s
                   (debts l @ [d]) = [d]))
   \<and> (split_user s = se_paid_by (split_shared_expense s) \<or> split_is_settled s \<or> \<not> created
        \<longrightarrow> create_debt_on_split s created l = Inr l)
   \<and> (create_debt_on_split s created l = Inr l'
        \<longrightarrow> create_debt_on_split s created l' = Inr l')"
proof (intro conjI impI)
  assume h: "created \<and> \<not> split_is_settled s
      \<and> split_user s \<noteq> se_paid_by (split_shared_expense s)
      \<and> matching_debts (se_paid_by (split_shared_expense s)) (split_user s) s (debts l) = []"
  then show "\<exists>d. create_debt_on_split s created l
                  = Inr (l\<lparr>debts := debts l @ [d], next_pk := Suc (next_pk l)\<rparr>)
             \<and> debt_creditor d = se_paid_by (split_shared_expense s)
             \<and> debt_debtor d = split_user s
             \<and> debt_amount d = split_amount s
             \<and> debt_shared_expense_split d = Some (split_id s)
             \<and> debt_status d = PENDING \<and> debt_settled_amount d = 0
             \<and> matching_debts (se_paid_by (split_shared_expense s)) (split_user s) s
                   (debts l @ [d]) = [d]"
  proof -
    define d where "d =
       \<lparr>debt_id = next_pk l,
        debt_creditor = se_paid_by (split_shared_expense s),
        debt_debtor = split_user s,
        debt_amount = split_amount s,
        debt_description =
          ''Split for: '' @ expense_description (se_expense (split_shared_expense s)),
        debt_group = Some (group_id (se_group (split_shared_expense s))),
        debt_shared_expense_split = Some (split_id s),
        debt_status = PENDING,
        debt_due_date = None,
        debt_settled_amount = 0,
        debt_settled_at = None,
        debt_created_by = Some (se_paid_by (split_shared_expense s)),
        debt_is_deleted = False\<rparr>"
    have r: "create_debt_on_split s created l
               = Inr (l\<lparr>debts := debts l @ [d], next_pk := Suc (next_pk l)\<rparr>)"
      using handler_new [of created s l] h by (simp add: d_def)
    have m: "matching_debts (se_paid_by (split_shared_expense s)) (split_user s) s
               (debts l @ [d]) = [d]"
      using h by (simp add: matching_debts_def d_def)
    show ?thesis
      using r m by (intro exI [of _ d]) (simp add: d_def)
  qed
next
  assume "split_user s = se_paid_by (split_shared_expense s) \<or> split_is_settled s \<or> \<not> created"
  then show "create_debt_on_split s created l = Inr l"
    using handler_skip [of created s l] by blast
next
  assume "create_debt_on_split s created l = Inr l'"
  then show "create_debt_on_split s created l' = Inr l'"
    using handler_idempotent by blast
qed

theorem create_debt_on_split_derivation_witness:
  "\<not> split_is_settled scenario_split
   \<and> split_user scenario_split \<noteq> se_paid_by (split_shared_expense scenario_split)
   \<and> matching_debts (se_paid_by (split_shared_expense scenario_split))
         (split_user scenario_split) scenario_split (debts empty_ledger) = []
   \<and> create_debt_on_split scenario_split True empty_ledger
       = Inr (empty_ledger\<lparr>debts := [scenario_derived_debt], next_pk := 1\<rparr>)
   \<and> create_debt_on_split scenario_split True
         (empty_ledger\<lparr>debts := [scenario_derived_debt], next_pk := 1\<rparr>)
       = Inr (empty_ledger\<lparr>debts := [scenario_derived_debt], next_pk := 1\<rparr>)
   \<and> split_is_settled scenario_settled_split
   \<and> create_debt_on_split scenario_settled_split True empty_ledger = Inr empty_ledger"
proof -
  have h1: "\<not> split_is_settled scenario_split"
    and h2: "split_user scenario_split \<noteq> se_paid_by (split_shared_expense scenario_split)"
    and h3: "matching_debts (se_paid_by (split_shared_expense scenario_split))
         (split_user scenario_split) scenario_split (debts empty_ledger) = []"
    and h4: "split_is_settled scenario_settled_split"
    by (simp_all add: scenario_split_def scenario_shared_expense_def empty_ledger_def
          matching_debts_def scenario_settled_split_def)
  have first: "create_debt_on_split scenario_split True empty_ledger
       = Inr (empty_ledger\<lparr>debts := [scenario_derived_debt], next_pk := 1\<rparr>)"
    by (simp add: create_debt_on_split_def Debt_get_or_create_def matching_debts_def
          scenario_split_def scenario_shared_expense_def scenario_expense_def
          scenario_group_def empty_ledger_def scenario_derived_debt_def)
  show ?thesis
    using h1 h2 h3 h4 first
      create_debt_on_split_derivation [of True scenario_split empty_ledger
        "empty_ledger\<lparr>debts := [scenario_derived_debt], next_pk := 1\<rparr>"]
      create_debt_on_split_derivation [of True scenario_settled_split empty_ledger empty_ledger]
    by simp
qed

text \<open>
  A split of user 2 that is created settled, for an expense paid by user 1: the handler
  derives no debt.
\<close>

theorem create_debt_on_split_settled_counterexample:
  "split_user scenario_settled_split
     \<noteq> se_paid_by (split_shared_expense scenario_settled_split)
   \<and> split_is_settled scenario_settled_split
   \<and> create_debt_on_split scenario_settled_split True empty_ledger = Inr empty_ledger
   \<and> debts empty_ledger = []"
  by (simp add: create_debt_on_split_def scenario_settled_split_def scenario_split_def
        scenario_shared_expense_def empty_ledger_def)

end
